theory Spec2Isabelle
  imports Main "HOL-Library.Word"
begin

unbundle bit_operations_syntax

section \<open>Python values and exceptions\<close>

text \<open>
  The module \<open>server/enip/device.py\<close> is Python: integers are unbounded (\<open>int\<close>),
  every failure is an exception.  The exceptions that the modelled functions can raise are
  collected in one datatype; a function that may raise returns \<open>error + 'a\<close>.
\<close>

datatype error =
    ValueError
  | KeyError
  | IndexError
  | TypeError
  | AttributeError
  | StructError
  | StopIteration
  | AssertionError string

type_synonym byte = "8 word"

subsection \<open>The builtin \<open>int(x, base)\<close>\<close>

text \<open>
  \<open>parse_int\<close> relies on the builtin \<open>int(x, base=...)\<close> of Python 3 applied to a string:
  optional surrounding whitespace, an optional sign, a base prefix (\<open>0x\<close>, \<open>0o\<close>, \<open>0b\<close>) that is
  accepted only when the base is the matching one or 0, digits that may be separated by single
  underscores, and, for base 0, no leading zero on a nonzero decimal literal.
\<close>

definition py_isspace :: "char \<Rightarrow> bool" where
  "py_isspace c = (let n = (of_char c :: nat) in (9 \<le> n \<and> n \<le> 13) \<or> (28 \<le> n \<and> n \<le> 32))"

definition digit_val :: "char \<Rightarrow> nat option" where
  "digit_val c =
     (let n = (of_char c :: nat) in
      if 48 \<le> n \<and> n \<le> 57 then Some (n - 48)
      else if 97 \<le> n \<and> n \<le> 122 then Some (n - 87)
      else if 65 \<le> n \<and> n \<le> 90 then Some (n - 55)
      else None)"

definition is_digit :: "nat \<Rightarrow> char \<Rightarrow> bool" where
  "is_digit b c = (case digit_val c of Some d \<Rightarrow> d < b | None \<Rightarrow> False)"

text \<open>
  The digit scan: consumes digits of the base and underscores, refusing two underscores in a
  row.  It returns the value read, the number of digits, the last character consumed and the
  rest of the input.
\<close>

fun scan_digits :: "nat \<Rightarrow> char \<Rightarrow> nat \<Rightarrow> nat \<Rightarrow> string \<Rightarrow> (nat \<times> nat \<times> char \<times> string) option" where
  "scan_digits b prev acc n [] = Some (acc, n, prev, [])"
| "scan_digits b prev acc n (c # cs) =
     (if c = CHR ''_'' then
        (if prev = CHR ''_'' then None else scan_digits b c acc n cs)
      else if is_digit b c then scan_digits b c (acc * b + the (digit_val c)) (Suc n) cs
      else Some (acc, n, prev, c # cs))"

definition strip_prefix :: "nat \<Rightarrow> string \<Rightarrow> string" where
  "strip_prefix b s =
     (case s of
        c0 # c1 # rest \<Rightarrow>
          if c0 = CHR ''0'' \<and>
             ((b = 16 \<and> (c1 = CHR ''x'' \<or> c1 = CHR ''X'')) \<or>
              (b = 8 \<and> (c1 = CHR ''o'' \<or> c1 = CHR ''O'')) \<or>
              (b = 2 \<and> (c1 = CHR ''b'' \<or> c1 = CHR ''B'')))
          then (case rest of u # rest' \<Rightarrow> if u = CHR ''_'' then rest' else rest | [] \<Rightarrow> rest)
          else s
      | _ \<Rightarrow> s)"

definition deduce_base :: "string \<Rightarrow> nat \<times> bool" where
  "deduce_base s =
     (case s of
        [] \<Rightarrow> (10, False)
      | c0 # t \<Rightarrow>
          if c0 \<noteq> CHR ''0'' then (10, False)
          else (case t of
                  [] \<Rightarrow> (10, True)
                | c1 # _ \<Rightarrow>
                    if c1 = CHR ''x'' \<or> c1 = CHR ''X'' then (16, False)
                    else if c1 = CHR ''o'' \<or> c1 = CHR ''O'' then (8, False)
                    else if c1 = CHR ''b'' \<or> c1 = CHR ''B'' then (2, False)
                    else (10, True)))"

definition py_int :: "string \<Rightarrow> int \<Rightarrow> error + int" where
  "py_int x base =
     (if (base \<noteq> 0 \<and> base < 2) \<or> base > 36 then Inl ValueError
      else
        let s0 = dropWhile py_isspace x;
            (neg, s1) = (case s0 of
                           [] \<Rightarrow> (False, s0)
                         | c # t \<Rightarrow> if c = CHR ''+'' then (False, t)
                                    else if c = CHR ''-'' then (True, t)
                                    else (False, s0));
            (b, error_if_nonzero) = (if base = 0 then deduce_base s1 else (nat base, False));
            s2 = strip_prefix b s1
        in if s2 \<noteq> [] \<and> hd s2 = CHR ''_'' then Inl ValueError
           else
             (case scan_digits b (CHR 0x00) 0 0 s2 of
                None \<Rightarrow> Inl ValueError
              | Some (v, n, prev, rest) \<Rightarrow>
                  if prev = CHR ''_'' then Inl ValueError
                  else if error_if_nonzero \<and> v \<noteq> 0 then Inl ValueError
                  else if n = 0 then Inl ValueError
                  else if dropWhile py_isspace rest \<noteq> [] then Inl ValueError
                  else Inr (if neg then - int v else int v)))"

section \<open>Path and tag module\<close>

subsection \<open>\<open>parse_int\<close>\<close>

text \<open>
  \<^verbatim>\<open>
  def parse_int( x, base=10 ):
      try:
          return int( x, base=base )
      except ValueError:
          return int( x, base=0 )
  \<close>
\<close>

definition parse_int :: "string \<Rightarrow> int \<Rightarrow> error + int" where
  "parse_int x base =
     (case py_int x base of
        Inl ValueError \<Rightarrow> py_int x 0
      | r \<Rightarrow> r)"

text \<open>The value of a digit string in a base, most significant digit first.\<close>

definition digits_value :: "nat \<Rightarrow> string \<Rightarrow> nat" where
  "digits_value b ds = foldl (\<lambda>a c. a * b + the (digit_val c)) 0 ds"

section \<open>Attributes\<close>

subsection \<open>Python list and slice indexing\<close>

text \<open>
  Indexing a Python list with an integer counts a negative index from the end and raises
  \<open>IndexError\<close> outside \<open>-len \<dots> len-1\<close>.
\<close>

definition norm_index :: "nat \<Rightarrow> int \<Rightarrow> nat option" where
  "norm_index n i =
     (if 0 \<le> i \<and> i < int n then Some (nat i)
      else if i < 0 \<and> - int n \<le> i then Some (nat (int n + i))
      else None)"

definition list_getitem :: "'a list \<Rightarrow> int \<Rightarrow> error + 'a" where
  "list_getitem xs i =
     (case norm_index (length xs) i of None \<Rightarrow> Inl IndexError | Some j \<Rightarrow> Inr (xs ! j))"

definition list_setitem :: "'a list \<Rightarrow> int \<Rightarrow> 'a \<Rightarrow> error + 'a list" where
  "list_setitem xs i v =
     (case norm_index (length xs) i of None \<Rightarrow> Inl IndexError | Some j \<Rightarrow> Inr (xs[j := v]))"

text \<open>\<open>slice(start, stop, step).indices(len)\<close>: the clamped bounds and the step.\<close>

definition slice_indices ::
  "int option \<Rightarrow> int option \<Rightarrow> int option \<Rightarrow> int \<Rightarrow> error + (int \<times> int \<times> int)" where
  "slice_indices start stop step len =
     (let stride = (case step of None \<Rightarrow> 1 | Some s \<Rightarrow> s) in
      if stride = 0 then Inl ValueError
      else
        let lower = (if stride < 0 then - 1 else 0);
            upper = (if stride < 0 then len - 1 else len);
            clamp = (\<lambda>s. if s < 0 then max (s + len) lower else min s upper);
            b = (case start of None \<Rightarrow> (if stride < 0 then upper else lower) | Some s \<Rightarrow> clamp s);
            e = (case stop of None \<Rightarrow> (if stride < 0 then lower else upper) | Some s \<Rightarrow> clamp s)
        in Inr (b, e, stride))"

subsection \<open>The class \<open>Attribute\<close>\<close>

text \<open>
  An Attribute holds a backing value (\<open>default\<close>), which is a scalar or a list, and an instance
  of its \<open>enip\<close> type class as \<open>parser\<close>.  The type classes live in \<open>enip/parser.py\<close>, which is
  not part of the file; an Attribute therefore carries what the file uses of its parser: the
  encoder \<open>produce\<close>, \<open>struct_calcsize\<close> and the decoder of one element
  (\<open>struct.unpack(struct_format, \<dots>)[0]\<close>).  The model covers Attributes whose elements are
  integers.  \<open>scalar\<close> is fixed at construction from the shape of \<open>default\<close> and every later
  assignment keeps that shape, so it is read off the constructor.
\<close>

datatype attr_data = Scalar int | Vector "int list"

record type_cls =
  produce :: "int \<Rightarrow> error + byte list"
  struct_calcsize :: nat
  struct_unpack :: "byte list \<Rightarrow> error + int"

text \<open>
  The subclasses \<open>MaxInstance\<close> and \<open>NumInstances\<close> override the \<open>value\<close> property and
  \<open>__setitem__\<close>; \<open>kind\<close> records the class of the Attribute and the \<open>class_id\<close> it watches.
\<close>

datatype attr_kind = Plain | MaxInstance int | NumInstances int

record attribute =
  name :: string
  default_data :: attr_data
  parser :: type_cls
  error_code :: int
  mask_bits :: int
  kind :: attr_kind

definition MASK_GA_SNG :: int where "MASK_GA_SNG = 1"
definition MASK_GA_ALL :: int where "MASK_GA_ALL = 2"

definition scalar :: "attribute \<Rightarrow> bool" where
  "scalar a = (case default_data a of Scalar _ \<Rightarrow> True | Vector _ \<Rightarrow> False)"

text \<open>\<open>__len__\<close>: 1 for a scalar, the length of the list otherwise.\<close>

definition len :: "attribute \<Rightarrow> int" where
  "len a = (case default_data a of Scalar _ \<Rightarrow> 1 | Vector xs \<Rightarrow> int (length xs))"

text \<open>A key is an integer, a slice object, or anything else.\<close>

datatype key = KInt int | KSlice "int option" "int option" "int option" | KOther

datatype key_type = IsSlice | IsInt

text \<open>
  \<^verbatim>\<open>
  def _validate_key( self, key ):
      if isinstance( key, slice ):
          start,stop,stride = key.indices( len( self ))
          if stride == 1 and start < stop and stop <= len( self ) and key.stop in (stop,None):
              return slice
          raise KeyError( ... )
      if not isinstance( key, int ) or key >= len( self ):
          raise KeyError( ... )
      return int
  \<close>
\<close>

definition validate_key :: "attribute \<Rightarrow> key \<Rightarrow> error + key_type" where
  "validate_key a k =
     (case k of
        KSlice start stop step \<Rightarrow>
          (case slice_indices start stop step (len a) of
             Inl e \<Rightarrow> Inl e
           | Inr (b, e, stride) \<Rightarrow>
               if stride = 1 \<and> b < e \<and> e \<le> len a \<and> (stop = Some e \<or> stop = None)
               then Inr IsSlice else Inl KeyError)
      | KInt i \<Rightarrow> if i \<ge> len a then Inl KeyError else Inr IsInt
      | KOther \<Rightarrow> Inl KeyError)"

text \<open>
  \<open>value[key]\<close> on the backing list for a slice that passed validation: Python computes the
  bounds again from the slice object.
\<close>

definition list_getslice :: "'a list \<Rightarrow> int option \<Rightarrow> int option \<Rightarrow> int option \<Rightarrow> error + 'a list" where
  "list_getslice xs start stop step =
     (case slice_indices start stop step (int (length xs)) of
        Inl e \<Rightarrow> Inl e
      | Inr (b, e, stride) \<Rightarrow>
          if stride = 1 then Inr (take (nat (e - b)) (drop (nat b) xs)) else Inl ValueError)"

definition list_setslice ::
  "'a list \<Rightarrow> int option \<Rightarrow> int option \<Rightarrow> int option \<Rightarrow> 'a list \<Rightarrow> error + 'a list" where
  "list_setslice xs start stop step vs =
     (case slice_indices start stop step (int (length xs)) of
        Inl e \<Rightarrow> Inl e
      | Inr (b, e, stride) \<Rightarrow>
          if stride = 1 then Inr (take (nat b) xs @ vs @ drop (nat (max b e)) xs) else Inl ValueError)"

text \<open>
  \<^verbatim>\<open>
  def __getitem__( self, key ):
      if self._validate_key( key ) is slice:
          return [ self.value ] if self.scalar else self.value[key]
      return self.value if self.scalar else self.value[key]
  \<close>
\<close>

definition getitem :: "attribute \<Rightarrow> key \<Rightarrow> error + attr_data" where
  "getitem a k =
     (case validate_key a k of
        Inl e \<Rightarrow> Inl e
      | Inr IsSlice \<Rightarrow>
          (case (default_data a, k) of
             (Scalar v, _) \<Rightarrow> Inr (Vector [v])
           | (Vector xs, KSlice start stop step) \<Rightarrow> map_sum id Vector (list_getslice xs start stop step)
           | _ \<Rightarrow> Inl TypeError)
      | Inr IsInt \<Rightarrow>
          (case (default_data a, k) of
             (Scalar v, _) \<Rightarrow> Inr (Scalar v)
           | (Vector xs, KInt i) \<Rightarrow> map_sum id Scalar (list_getitem xs i)
           | _ \<Rightarrow> Inl TypeError))"

text \<open>
  The setter of the \<open>value\<close> property: \<open>assert self.scalar\<close>, then
  \<open>self.default = type(self.default)( v )\<close>.  For an integer default this is \<open>int(v)\<close>, which
  keeps an integer and refuses a list.
\<close>

definition set_value :: "attribute \<Rightarrow> attr_data \<Rightarrow> error + attribute" where
  "set_value a v =
     (if \<not> scalar a then Inl (AssertionError ''Scalar assignment not supported'')
      else case v of
             Scalar i \<Rightarrow> Inr (a\<lparr>default_data := Scalar i\<rparr>)
           | Vector _ \<Rightarrow> Inl TypeError)"

text \<open>
  \<^verbatim>\<open>
  def __setitem__( self, key, value ):
      if self._validate_key( key ) is slice:
          if self.scalar:
              self.value      = next( iter( value ))
          else:
              self.value[key] = value
          return
      if self.scalar:
          self.value          = value
      else:
          self.value[key]     = value
  \<close>
\<close>

definition setitem :: "attribute \<Rightarrow> key \<Rightarrow> attr_data \<Rightarrow> error + attribute" where
  "setitem a k v =
     (case validate_key a k of
        Inl e \<Rightarrow> Inl e
      | Inr IsSlice \<Rightarrow>
          (case default_data a of
             Scalar _ \<Rightarrow>
               (case v of
                  Scalar _ \<Rightarrow> Inl TypeError
                | Vector [] \<Rightarrow> Inl StopIteration
                | Vector (x # _) \<Rightarrow> set_value a (Scalar x))
           | Vector xs \<Rightarrow>
               (case (k, v) of
                  (KSlice start stop step, Vector vs) \<Rightarrow>
                    map_sum id (\<lambda>ys. a\<lparr>default_data := Vector ys\<rparr>) (list_setslice xs start stop step vs)
                | _ \<Rightarrow> Inl TypeError))
      | Inr IsInt \<Rightarrow>
          (case default_data a of
             Scalar _ \<Rightarrow> set_value a v
           | Vector xs \<Rightarrow>
               (case (k, v) of
                  (KInt i, Scalar x) \<Rightarrow>
                    map_sum id (\<lambda>ys. a\<lparr>default_data := Vector ys\<rparr>) (list_setitem xs i x)
                | _ \<Rightarrow> Inl TypeError)))"

section \<open>Tag symbols and path resolution\<close>

text \<open>
  A path segment is a Python dict such as \<open>{'class': 5}\<close>, \<open>{'symbolic': 'SCADA', 'length': 5}\<close>
  or \<open>{'element': 3}\<close>: an association list from key to value, each key once.
\<close>

datatype pyval = PInt int | PStr string

type_synonym segment = "(string \<times> pyval) list"

fun str_nat :: "nat \<Rightarrow> string" where
  "str_nat n = (if n < 10 then [char_of (48 + n)] else str_nat (n div 10) @ [char_of (48 + n mod 10)])"

declare str_nat.simps [simp del]

definition str_int :: "int \<Rightarrow> string" where
  "str_int i = (if i < 0 then CHR ''-'' # str_nat (nat (- i)) else str_nat (nat i))"

definition str :: "pyval \<Rightarrow> string" where
  "str v = (case v of PInt i \<Rightarrow> str_int i | PStr s \<Rightarrow> s)"

text \<open>
  The symbol table maps a tag to the address \<open>redirect_tag\<close> stored for it: a dict with exactly
  the keys \<open>class\<close>, \<open>instance\<close> and \<open>attribute\<close>.
\<close>

type_synonym address = "pyval \<times> pyval \<times> pyval"

type_synonym symtab = "string \<rightharpoonup> address"

definition redirect_tag :: "symtab \<Rightarrow> string \<Rightarrow> address \<Rightarrow> symtab \<times> address" where
  "redirect_tag tab tag address = (tab(tag \<mapsto> address), address)"

definition resolve_tag :: "symtab \<Rightarrow> string \<Rightarrow> address option" where
  "resolve_tag tab tag = tab tag"

definition address_dict :: "address \<Rightarrow> segment" where
  "address_dict a = (case a of (c, i, at) \<Rightarrow> [(''class'', c), (''instance'', i), (''attribute'', at)])"

subsection \<open>\<open>resolve\<close>\<close>

text \<open>
  \<open>result\<close> is the dict \<open>{'class': None, 'instance': None, 'attribute': None}\<close> being filled.
\<close>

type_synonym fields = "pyval option \<times> pyval option \<times> pyval option"

text \<open>The test that ends the walk: all desired terms are specified.\<close>

definition desired :: "bool \<Rightarrow> fields \<Rightarrow> bool" where
  "desired attribute r =
     (case r of (c, i, a) \<Rightarrow> c \<noteq> None \<and> i \<noteq> None \<and> (if attribute then a \<noteq> None else True))"

definition pop :: "'k \<Rightarrow> ('k \<times> 'v) list \<Rightarrow> ('k \<times> 'v) list" where
  "pop k w = filter (\<lambda>kv. fst kv \<noteq> k) w"

text \<open>\<open>d[k] = v\<close> on a dict.\<close>

definition assign :: "'k \<Rightarrow> 'v \<Rightarrow> ('k \<times> 'v) list \<Rightarrow> ('k \<times> 'v) list" where
  "assign k v w = (k, v) # pop k w"

text \<open>
  One round of \<open>for key in result: if key in working: assert result[key] is None;
  result[key] = working.pop( key )\<close>, for one key.
\<close>

definition pull_key :: "string \<Rightarrow> pyval option \<Rightarrow> segment \<Rightarrow> error + (pyval option \<times> segment)" where
  "pull_key k cur w =
     (case map_of w k of
        None \<Rightarrow> Inr (cur, w)
      | Some v \<Rightarrow>
          if cur \<noteq> None then Inl (AssertionError ''Failed to override'')
          else Inr (Some v, pop k w))"

definition pull :: "fields \<Rightarrow> segment \<Rightarrow> error + (fields \<times> segment)" where
  "pull r w =
     (case r of (c, i, a) \<Rightarrow>
        case pull_key ''class'' c w of Inl e \<Rightarrow> Inl e
        | Inr (c', w1) \<Rightarrow>
            case pull_key ''instance'' i w1 of Inl e \<Rightarrow> Inl e
            | Inr (i', w2) \<Rightarrow>
                case pull_key ''attribute'' a w2 of Inl e \<Rightarrow> Inl e
                | Inr (a', w3) \<Rightarrow> Inr ((c', i', a'), w3))"

definition extend_tag :: "string \<Rightarrow> string \<Rightarrow> string" where
  "extend_tag tag s = tag @ (if tag \<noteq> [] then ''.'' else []) @ s"

text \<open>
  The loop \<open>while working:\<close> over one term.  After the keys of \<open>result\<close> are pulled, what is left
  must hold a \<open>symbolic\<close> name; the name extends the tag, and a tag found in the symbol table
  becomes the next \<open>working\<close> dict.
\<close>

function while_working :: "symtab \<Rightarrow> fields \<Rightarrow> string \<Rightarrow> segment \<Rightarrow> error + (fields \<times> string)" where
  "while_working tab r tag working =
     (if working = [] then Inr (r, tag)
      else case pull r working of
             Inl e \<Rightarrow> Inl e
           | Inr (r', w) \<Rightarrow>
               if w = [] then Inr (r', tag)
               else case map_of w ''symbolic'' of
                      None \<Rightarrow>
                        Inl (AssertionError
                              (if tag \<noteq> [] then ''Unrecognized symbolic name'' else ''Invalid term''))
                    | Some s \<Rightarrow>
                        let tag' = extend_tag tag (str s) in
                        (case tab tag' of
                           None \<Rightarrow> Inr (r', tag')
                         | Some a \<Rightarrow> while_working tab r' [] (address_dict a)))"
  by pat_completeness auto

text \<open>The loop \<open>for term in path['segment']:\<close> with its \<open>break\<close>.\<close>

fun walk :: "symtab \<Rightarrow> bool \<Rightarrow> fields \<Rightarrow> string \<Rightarrow> segment list \<Rightarrow> error + (fields \<times> string)" where
  "walk tab attribute r tag [] = Inr (r, tag)"
| "walk tab attribute r tag (term # rest) =
     (if desired attribute r then Inr (r, tag)
      else case while_working tab r tag term of
             Inl e \<Rightarrow> Inl e
           | Inr (r', tag') \<Rightarrow> walk tab attribute r' tag' rest)"

definition resolve :: "symtab \<Rightarrow> segment list \<Rightarrow> bool \<Rightarrow> error + (pyval \<times> pyval \<times> pyval option)" where
  "resolve tab path attribute =
     (case walk tab attribute (None, None, None) [] path of
        Inl e \<Rightarrow> Inl e
      | Inr ((c, i, a), tag) \<Rightarrow>
          if tag \<noteq> [] then Inl (AssertionError ''Unrecognized symbolic name'')
          else if \<not> desired attribute (c, i, a) then Inl (AssertionError ''Failed to resolve required'')
          else Inr (the c, the i, if attribute then a else None))"

text \<open>
  \<^verbatim>\<open>
  def resolve_element( path ):
      element = []
      for term in path['segment']:
          if 'element' in term:
              element.append( term['element'] )
              break
      return tuple( element ) if element else (0, )
  \<close>
\<close>

fun resolve_element :: "segment list \<Rightarrow> pyval list" where
  "resolve_element [] = [PInt 0]"
| "resolve_element (term # rest) =
     (case map_of term ''element'' of Some e \<Rightarrow> [e] | None \<Rightarrow> resolve_element rest)"

text \<open>
  Termination of \<open>while_working\<close>: the dict that replaces \<open>working\<close> comes from the symbol table
  and has no \<open>symbolic\<close> key, so the loop body runs at most twice per term.
\<close>

lemma map_of_pop: "map_of (pop k0 w) k = (if k = k0 then None else map_of w k)"
  by (induction w) (auto simp: pop_def)

lemma pull_key_map_of:
  "pull_key k0 cur w = Inr (cur', w') \<Longrightarrow> map_of w' k = (if k = k0 then None else map_of w k)"
  by (auto simp: pull_key_def map_of_pop split: option.splits if_splits)

lemma pull_map_of:
  assumes "pull r w = Inr (r', w')"
  shows "map_of w' k = (if k \<in> {''class'', ''instance'', ''attribute''} then None else map_of w k)"
proof -
  obtain c i a where r: "r = (c, i, a)" by (cases r)
  from assms r obtain c' w1 i' w2 a' where
    1: "pull_key ''class'' c w = Inr (c', w1)" and
    2: "pull_key ''instance'' i w1 = Inr (i', w2)" and
    3: "pull_key ''attribute'' a w2 = Inr (a', w')"
    by (auto simp: pull_def split: sum.splits)
  show ?thesis
    using pull_key_map_of[OF 1, of k] pull_key_map_of[OF 2, of k] pull_key_map_of[OF 3, of k]
    by auto
qed

termination while_working
proof (relation "measure (\<lambda>(tab, r, tag, working). if map_of working ''symbolic'' = None then 0 else 1)")
  show "wf (measure (\<lambda>(tab, r, tag, working). if map_of working ''symbolic'' = None then 0 else (1::nat)))"
    by simp
next
  fix tab :: symtab and r :: fields and tag :: string and working :: segment
    and x2 x y s xa x2a
  assume "working \<noteq> []" and p: "pull r working = Inr x2" and x2: "(x, y) = x2"
    and "y \<noteq> []" and s: "map_of y ''symbolic'' = Some s"
    and "xa = extend_tag tag (str s)" and "tab xa = Some x2a"
  from p x2 have "pull r working = Inr (x, y)" by simp
  from pull_map_of[OF this, of "''symbolic''"] s
  have "map_of working ''symbolic'' = Some s" by simp
  moreover have "map_of (address_dict x2a) ''symbolic'' = None"
    by (cases x2a) (simp add: address_dict_def)
  ultimately show "((tab, x, [], address_dict x2a), tab, r, tag, working)
       \<in> measure (\<lambda>(tab, r, tag, working). if map_of working ''symbolic'' = None then 0 else 1)"
    by simp
qed

declare while_working.simps [simp del]

subsection \<open>The resolution rule of the specification\<close>

text \<open>
  Section 4.2 of the specification describes the walk segment by segment.  The following
  definitions state that description, with the four ways in which it can fail, for comparison
  with \<open>resolve\<close>:
  \<^item> a numeric field of the segment, or the address substituted for a tag, meets a field that
    is already set (\<open>Overwrite\<close>);
  \<^item> the segment has keys besides \<open>class\<close>, \<open>instance\<close> and \<open>attribute\<close> but no \<open>symbolic\<close> name:
    \<open>Invalid_term\<close>, or \<open>Unrecognized_symbolic\<close> when a tag is pending;
  \<^item> a tag is still pending after the walk (\<open>Unrecognized_symbolic\<close>);
  \<^item> a required field is unset after the walk (\<open>Unresolved\<close>).
\<close>

datatype resolve_failure = Overwrite | Invalid_term | Unrecognized_symbolic | Unresolved

definition failure_message :: "resolve_failure \<Rightarrow> error" where
  "failure_message f =
     (case f of
        Overwrite \<Rightarrow> AssertionError ''Failed to override''
      | Invalid_term \<Rightarrow> AssertionError ''Invalid term''
      | Unrecognized_symbolic \<Rightarrow> AssertionError ''Unrecognized symbolic name''
      | Unresolved \<Rightarrow> AssertionError ''Failed to resolve required'')"

definition clashes :: "pyval option \<Rightarrow> pyval option \<Rightarrow> bool" where
  "clashes cur new = (cur \<noteq> None \<and> new \<noteq> None)"

definition filled :: "pyval option \<Rightarrow> pyval option \<Rightarrow> pyval option" where
  "filled cur new = (case new of None \<Rightarrow> cur | Some v \<Rightarrow> Some v)"

definition spec_fill :: "fields \<Rightarrow> segment \<Rightarrow> resolve_failure + fields" where
  "spec_fill r seg =
     (case r of (c, i, a) \<Rightarrow>
        if clashes c (map_of seg ''class'') \<or> clashes i (map_of seg ''instance'')
           \<or> clashes a (map_of seg ''attribute'')
        then Inl Overwrite
        else Inr (filled c (map_of seg ''class''), filled i (map_of seg ''instance''),
                  filled a (map_of seg ''attribute'')))"

definition other_keys :: "segment \<Rightarrow> string list" where
  "other_keys seg = filter (\<lambda>k. k \<noteq> ''class'' \<and> k \<noteq> ''instance'' \<and> k \<noteq> ''attribute'') (map fst seg)"

definition spec_step :: "symtab \<Rightarrow> fields \<times> string \<Rightarrow> segment \<Rightarrow> resolve_failure + (fields \<times> string)" where
  "spec_step tab st seg =
     (case st of (r, tag) \<Rightarrow>
        case spec_fill r seg of
          Inl f \<Rightarrow> Inl f
        | Inr r' \<Rightarrow>
            if other_keys seg = [] then Inr (r', tag)
            else case map_of seg ''symbolic'' of
                   None \<Rightarrow> Inl (if tag \<noteq> [] then Unrecognized_symbolic else Invalid_term)
                 | Some s \<Rightarrow>
                     (case tab (extend_tag tag (str s)) of
                        None \<Rightarrow> Inr (r', extend_tag tag (str s))
                      | Some (c, i, a) \<Rightarrow>
                          if r' = (None, None, None) then Inr ((Some c, Some i, Some a), [])
                          else Inl Overwrite))"

fun spec_walk :: "symtab \<Rightarrow> bool \<Rightarrow> fields \<times> string \<Rightarrow> segment list \<Rightarrow> resolve_failure + (fields \<times> string)" where
  "spec_walk tab attribute st [] = Inr st"
| "spec_walk tab attribute st (seg # rest) =
     (if desired attribute (fst st) then Inr st
      else case spec_step tab st seg of
             Inl f \<Rightarrow> Inl f
           | Inr st' \<Rightarrow> spec_walk tab attribute st' rest)"

definition spec_resolve ::
  "symtab \<Rightarrow> segment list \<Rightarrow> bool \<Rightarrow> resolve_failure + (pyval \<times> pyval \<times> pyval option)" where
  "spec_resolve tab path attribute =
     (case spec_walk tab attribute ((None, None, None), []) path of
        Inl f \<Rightarrow> Inl f
      | Inr ((c, i, a), tag) \<Rightarrow>
          if tag \<noteq> [] then Inl Unrecognized_symbolic
          else if c = None \<or> i = None \<or> (attribute \<and> a = None) then Inl Unresolved
          else Inr (the c, the i, if attribute then a else None))"

section \<open>Wire encoding of integers\<close>

text \<open>
  Modelled from the spec: the type classes \<open>USINT\<close>, \<open>UINT\<close>, \<open>INT\<close>, \<open>UDINT\<close>, \<open>WORD\<close> and
  \<open>DWORD\<close> are imported from \<open>enip/parser.py\<close>, which is not part of the file.  Section 6 of
  the specification fixes their wire form: little-endian, of width 1, 2, 2, 4, 2 and 4 bytes.
  \<open>produce\<close> refuses a value that does not fit the width, as \<open>struct.pack\<close> does.
\<close>

fun le_bytes :: "nat \<Rightarrow> int \<Rightarrow> byte list" where
  "le_bytes 0 v = []"
| "le_bytes (Suc n) v = word_of_int v # le_bytes n (v div 256)"

fun le_value :: "byte list \<Rightarrow> int" where
  "le_value [] = 0"
| "le_value (b # bs) = uint b + 256 * le_value bs"

definition fits :: "nat \<Rightarrow> bool \<Rightarrow> int \<Rightarrow> bool" where
  "fits n is_signed v =
     (if is_signed then - (2 ^ (8 * n - 1)) \<le> v \<and> v < 2 ^ (8 * n - 1) else 0 \<le> v \<and> v < 2 ^ (8 * n))"

definition int_type :: "nat \<Rightarrow> bool \<Rightarrow> type_cls" where
  "int_type n is_signed =
     \<lparr>produce = (\<lambda>v. if fits n is_signed v then Inr (le_bytes n v) else Inl StructError),
      struct_calcsize = n,
      struct_unpack =
        (\<lambda>bs. if length bs \<noteq> n then Inl StructError
              else Inr (if is_signed \<and> 2 ^ (8 * n - 1) \<le> le_value bs
                        then le_value bs - 2 ^ (8 * n) else le_value bs))\<rparr>"

definition USINT :: type_cls where "USINT = int_type 1 False"
definition UINT :: type_cls where "UINT = int_type 2 False"
text \<open>\<open>INT\<close> is written \<open>INT'\<close>: the plain name is taken by the notation of intersections.\<close>

definition INT' :: type_cls where "INT' = int_type 2 True"
definition UDINT :: type_cls where "UDINT = int_type 4 False"
definition WORD :: type_cls where "WORD = int_type 2 False"
definition DWORD :: type_cls where "DWORD = int_type 4 False"

section \<open>The object registry\<close>

text \<open>
  The module keeps three pieces of global state: \<open>directory\<close>, \<open>symbol\<close> and, on every class
  derived from \<open>Object\<close>, the counter \<open>max_instance\<close>.  \<open>directory\<close> is a \<open>dotdict\<close> addressed by
  \<open>"<class>.<instance>"\<close>; what it holds there is the Object's \<open>attribute\<close> dict, whose key
  \<open>'0'\<close> is the Object itself and whose other keys \<open>str(attribute_id)\<close> are Attributes.  The
  decimal rendering of an integer identifies it, so the keys are modelled as the integers.
  Each class of the module has a \<open>class_id\<close> of its own, so the counter of a class is indexed
  by its \<open>class_id\<close>; it starts at the value 0 inherited from \<open>Object\<close>.  The values that the
  configuration loader gives (\<open>config_int\<close>) are a parameter of the state.
\<close>

datatype slot = Self string | Attr attribute

type_synonym attributes = "(int \<times> slot) list"

record world =
  directory :: "(int \<times> int) \<rightharpoonup> attributes"
  symbol :: symtab
  max_instance :: "int \<Rightarrow> int"
  config_int :: "string \<Rightarrow> string \<Rightarrow> int \<Rightarrow> int"

text \<open>
  \<open>lookup\<close> answers \<open>None\<close> for anything it cannot find; the assertion of
  \<open>__directory_path\<close> against \<open>attribute_id == 0\<close> is caught inside \<open>lookup\<close> and also gives \<open>None\<close>.
\<close>

definition lookup :: "world \<Rightarrow> int \<Rightarrow> int \<Rightarrow> int option \<Rightarrow> slot option" where
  "lookup w c i a =
     (if a = Some 0 then None
      else case directory w (c, i) of
             None \<Rightarrow> None
           | Some atts \<Rightarrow> map_of atts (case a of None \<Rightarrow> 0 | Some k \<Rightarrow> k))"

text \<open>
  \<^verbatim>\<open>
  def lookup_reset():
      global directory
      global symbol
      directory = dotdict()
      symbol    = {}
  \<close>
\<close>

definition lookup_reset :: "world \<Rightarrow> world" where
  "lookup_reset w = w\<lparr>directory := Map.empty, symbol := Map.empty\<rparr>"

text \<open>The state of the module when it has been loaded.\<close>

definition loaded :: "(string \<Rightarrow> string \<Rightarrow> int \<Rightarrow> int) \<Rightarrow> world" where
  "loaded cfg = \<lparr>directory = Map.empty, symbol = Map.empty, max_instance = (\<lambda>_. 0), config_int = cfg\<rparr>"

subsection \<open>\<open>Object.__init__\<close>\<close>

record py_class =
  class_id :: int
  class_name :: string

text \<open>\<open>self.attribute[str(k)] = x\<close>, where \<open>self.attribute\<close> is the dict at \<open>directory[class.instance]\<close>.\<close>

definition set_slot :: "world \<Rightarrow> int \<times> int \<Rightarrow> int \<Rightarrow> slot \<Rightarrow> world" where
  "set_slot w ci k x =
     w\<lparr>directory := (directory w)(ci \<mapsto> assign k x (case directory w ci of None \<Rightarrow> [] | Some d \<Rightarrow> d))\<rparr>"

definition plain_attribute :: "string \<Rightarrow> type_cls \<Rightarrow> attr_data \<Rightarrow> attribute" where
  "plain_attribute n t d =
     \<lparr>name = n, default_data = d, parser = t, error_code = 0, mask_bits = 0, kind = Plain\<rparr>"

text \<open>The class-level Attributes that instance 0 receives.\<close>

definition class_level_attributes :: "py_class \<Rightarrow> string \<Rightarrow> world \<Rightarrow> world" where
  "class_level_attributes cls self_name w =
     (let ci = (class_id cls, 0);
          w1 = set_slot w ci 1
                 (Attr (plain_attribute ''Revision'' INT' (Scalar (config_int w self_name ''Revision'' 0))));
          w2 = set_slot w1 ci 2
                 (Attr ((plain_attribute ''Max Instance'' INT' (Scalar 0))\<lparr>kind := MaxInstance (class_id cls)\<rparr>));
          w3 = set_slot w2 ci 3
                 (Attr ((plain_attribute ''Num Instances'' INT' (Scalar 0))\<lparr>kind := NumInstances (class_id cls)\<rparr>))
      in set_slot w3 ci 4
           (Attr (plain_attribute ''Optional Attributes'' INT'
                    (Scalar (config_int w self_name ''Optional Attributes'' 0)))))"

definition self_name_of :: "py_class \<Rightarrow> string option \<Rightarrow> string" where
  "self_name_of cls nm = (case nm of None \<Rightarrow> class_name cls | Some n \<Rightarrow> if n = [] then class_name cls else n)"

definition allocate :: "py_class \<Rightarrow> int option \<Rightarrow> world \<Rightarrow> int" where
  "allocate cls instance_id w =
     (case instance_id of None \<Rightarrow> max_instance w (class_id cls) + 1 | Some i \<Rightarrow> i)"

definition track_max :: "py_class \<Rightarrow> int \<Rightarrow> world \<Rightarrow> world" where
  "track_max cls iid w =
     (if iid > max_instance w (class_id cls)
      then w\<lparr>max_instance := (max_instance w)(class_id cls := iid)\<rparr> else w)"

text \<open>
  \<^verbatim>\<open>
  def __init__( self, name=None, instance_id=None ):
      self._config      = None
      self.name         = name or self.__class__.__name__
      if instance_id is None:
          instance_id   = self.__class__.max_instance + 1
      if instance_id > self.__class__.max_instance:
          self.__class__.max_instance = instance_id
      self.instance_id  = instance_id
      instance          = lookup( self.class_id, instance_id )
      assert instance is None, "CIP Object class %x, instance %x already exists..."
      self.attribute    = directory.setdefault( str( self.class_id )+'.'+str( instance_id ), dotdict() )
      self.attribute['0'] = self
      if lookup( self.class_id, 0 ) is None:
          self.__class__( name='meta-'+self.name, instance_id=0 )
      if self.instance_id == 0:
          self.attribute['1'] = Attribute( 'Revision', INT, default=self.config_int( 'Revision', 0 ))
          ...
  \<close>
  The result is the exception raised, or the \<open>instance_id\<close> of the new Object, together with
  the state the call leaves behind: an assignment made before an exception stays made.
\<close>

function Object_init :: "py_class \<Rightarrow> string option \<Rightarrow> int option \<Rightarrow> world \<Rightarrow> (error + int) \<times> world" where
  "Object_init cls nm instance_id w =
     (let self_name = self_name_of cls nm;
          iid = allocate cls instance_id w;
          w1 = track_max cls iid w
      in if lookup w1 (class_id cls) iid None \<noteq> None
         then (Inl (AssertionError ''CIP Object already exists''), w1)
         else
           let w2 = set_slot w1 (class_id cls, iid) 0 (Self self_name);
               made = (if lookup w2 (class_id cls) 0 None = None
                       then Object_init cls (Some (''meta-'' @ self_name)) (Some 0) w2
                       else (Inr 0, w2))
           in case fst made of
                Inl e \<Rightarrow> (Inl e, snd made)
              | Inr _ \<Rightarrow>
                  (Inr iid, if iid = 0 then class_level_attributes cls self_name (snd made) else snd made))"
  by pat_completeness auto

lemma lookup_set_slot_same: "lookup (set_slot w (c, i) 0 x) c i None = Some x"
  by (simp add: lookup_def set_slot_def assign_def)

termination Object_init
proof (relation "measure (\<lambda>(cls, nm, instance_id, w). if instance_id = Some 0 then 0 else 1)")
  show "wf (measure (\<lambda>(cls, nm, instance_id, w). if instance_id = Some (0::int) then 0 else (1::nat)))"
    by simp
next
  fix cls :: py_class and nm :: "string option" and instance_id :: "int option" and w :: world
    and x xa xb xc
  assume xa: "xa = allocate cls instance_id w"
    and xc: "xc = set_slot xb (class_id cls, xa) 0 (Self x)"
    and none: "lookup xc (class_id cls) 0 None = None"
  have "xa \<noteq> 0"
  proof
    assume "xa = 0"
    with xc have "lookup xc (class_id cls) 0 None = Some (Self x)"
      by (simp add: lookup_set_slot_same)
    with none show False by simp
  qed
  with xa have "instance_id \<noteq> Some 0"
    by (auto simp: allocate_def)
  then show "((cls, Some (''meta-'' @ x), Some 0, xc), cls, nm, instance_id, w)
       \<in> measure (\<lambda>(cls, nm, instance_id, w). if instance_id = Some 0 then 0 else 1)"
    by simp
qed

declare Object_init.simps [simp del]

subsection \<open>Histories of the registry\<close>

text \<open>
  What a program can do to the registry: construct an Object of a class, with or without an
  explicit \<open>instance_id\<close>, redirect a tag, or call \<open>lookup_reset\<close>.  \<open>states\<close> lists the states
  that a sequence of such operations passes through, the first one included.
\<close>

datatype operation =
    Construct py_class "string option" "int option"
  | Redirect string address
  | Reset

fun perform :: "operation \<Rightarrow> world \<Rightarrow> world" where
  "perform (Construct cls nm instance_id) w = snd (Object_init cls nm instance_id w)"
| "perform (Redirect tag address) w = w\<lparr>symbol := fst (redirect_tag (symbol w) tag address)\<rparr>"
| "perform Reset w = lookup_reset w"

fun states :: "operation list \<Rightarrow> world \<Rightarrow> world list" where
  "states [] w = [w]"
| "states (x # xs) w = w # states xs (perform x w)"

text \<open>
  The state in which the constructor has recorded the new Object under its pair, used to state
  the constructor in closed form.
\<close>

definition registered :: "py_class \<Rightarrow> string option \<Rightarrow> int option \<Rightarrow> world \<Rightarrow> world" where
  "registered cls nm instance_id w =
     set_slot (track_max cls (allocate cls instance_id w) w)
       (class_id cls, allocate cls instance_id w) 0 (Self (self_name_of cls nm))"


text \<open>The classes of the module that construct their instances with \<open>Object.__init__\<close> alone.\<close>

definition UCMM_class :: py_class where
  "UCMM_class = \<lparr>class_id = 0x9999, class_name = ''UCMM''\<rparr>"

definition Message_Router_class :: py_class where
  "Message_Router_class = \<lparr>class_id = 0x02, class_name = ''Message_Router''\<rparr>"


text \<open>No configuration file has been read: every \<open>config_int\<close> gives its default.\<close>

definition no_config :: "string \<Rightarrow> string \<Rightarrow> int \<Rightarrow> int" where
  "no_config section_name k d = d"

section \<open>Request artifacts and their encoders\<close>

text \<open>
  A request is a \<open>dotdict\<close> that its parser has filled and that \<open>request\<close> turns into the reply
  in place.  The record \<open>artifact\<close> has the keys that the module reads or writes; a key that is
  absent is \<open>None\<close>.  A service context such as \<open>get_attributes_all\<close> is either the marker
  \<open>True\<close> that the request parser leaves (\<open>Mark\<close>) or a dict that may hold a \<open>data\<close> list.
  The fields of \<open>forward_close\<close> carry the prefix \<open>fc_\<close>, since \<open>forward_open\<close> has fields of the
  same names; \<open>request_input\<close> is \<open>data.request.input\<close>, the encapsulated request of an
  Unconnected Send that has not been parsed yet.
\<close>

datatype payload = Mark | Dict "int list option"

record application =
  app_data :: "int list option"
  app_type :: "int option"
  app_tag_type :: "int option"

record forward_open_context =
  priority_time_tick :: int
  timeout_ticks :: int
  O_T_connection_ID :: int
  T_O_connection_ID :: int
  connection_serial :: int
  O_vendor :: int
  O_serial :: int
  connection_timeout_multiplier :: int
  O_T_RPI :: int
  O_T_NCP :: int
  T_O_RPI :: int
  T_O_NCP :: int
  transport_class_triggers :: int
  connection_path :: "segment list"
  O_T_API :: "int option"
  T_O_API :: "int option"
  application :: "application option"

record forward_close_context =
  fc_priority_time_tick :: int
  fc_timeout_ticks :: int
  fc_connection_serial :: int
  fc_O_vendor :: int
  fc_O_serial :: int
  fc_connection_path :: "segment list"
  fc_application :: "application option"

record artifact =
  service :: "int option"
  status :: "int option"
  status_ext :: "int list option"
  path :: "segment list option"
  input :: "byte list option"
  get_attributes_all :: "payload option"
  get_attribute_single :: "payload option"
  set_attribute_single :: "payload option"
  service_code :: "payload option"
  forward_open :: "forward_open_context option"
  forward_close :: "forward_close_context option"
  request_input :: "byte list option"

text \<open>
  The encoders \<open>EPATH.produce\<close>, \<open>EPATH_padded.produce\<close>, \<open>typed_data.produce\<close> and
  \<open>status.produce\<close> belong to \<open>enip/parser.py\<close>, which is not part of the file.  They are
  parameters of the model: every function that encodes takes the record \<open>codec\<close>.
  \<open>status_produce\<close> receives the \<open>status\<close> and \<open>status_ext\<close> of the artifact.
\<close>

record codec =
  EPATH_produce :: "segment list \<Rightarrow> error + byte list"
  EPATH_padded_produce :: "segment list \<Rightarrow> error + byte list"
  typed_data_produce :: "payload \<Rightarrow> error + byte list"
  typed_application_produce :: "application \<Rightarrow> error + byte list"
  status_produce :: "int option \<Rightarrow> int list option \<Rightarrow> error + byte list"

text \<open>Concatenation of encoded parts, evaluated from the left: the first exception wins.\<close>

fun cat :: "(error + byte list) list \<Rightarrow> error + byte list" where
  "cat [] = Inr []"
| "cat (Inl e # rest) = Inl e"
| "cat (Inr bs # rest) = (case cat rest of Inl e \<Rightarrow> Inl e | Inr cs \<Rightarrow> Inr (bs @ cs))"

definition need :: "'a option \<Rightarrow> ('a \<Rightarrow> error + 'b) \<Rightarrow> error + 'b" where
  "need x f = (case x of None \<Rightarrow> Inl AttributeError | Some v \<Rightarrow> f v)"

text \<open>\<open>ctx in data and data.setdefault( 'service', req ) == req\<close>\<close>

definition context_for :: "int \<Rightarrow> 'c option \<Rightarrow> int option \<Rightarrow> bool" where
  "context_for req ctx svc = (ctx \<noteq> None \<and> (svc = None \<or> svc = Some req))"

text \<open>\<open>isinstance( ctx, dict ) and 'data' in ctx\<close>\<close>

definition has_data :: "payload option \<Rightarrow> bool" where
  "has_data p = (case p of Some (Dict (Some _)) \<Rightarrow> True | _ \<Rightarrow> False)"

definition GA_ALL_REQ :: int where "GA_ALL_REQ = 0x01"
definition GA_ALL_RPY :: int where "GA_ALL_RPY = 0x81"
definition GA_SNG_REQ :: int where "GA_SNG_REQ = 0x0E"
definition GA_SNG_RPY :: int where "GA_SNG_RPY = 0x8E"
definition SA_SNG_REQ :: int where "SA_SNG_REQ = 0x10"
definition SA_SNG_RPY :: int where "SA_SNG_RPY = 0x90"

subsection \<open>\<open>Object.produce\<close>\<close>

text \<open>
  The branches are those of the source, in its order.  \<open>setdefault\<close> assigns \<open>service\<close> only when
  the key is absent; the encoder then writes the default, and the model does not return the
  artifact, since every caller in the file has set \<open>service\<close> before it encodes.
\<close>

definition Object_produce :: "codec \<Rightarrow> 'a artifact_scheme \<Rightarrow> error + byte list" where
  "Object_produce enc d =
     (if context_for GA_ALL_REQ (get_attributes_all d) (service d) then
        cat [produce USINT GA_ALL_REQ, need (path d) (EPATH_produce enc)]
      else if context_for GA_SNG_REQ (get_attribute_single d) (service d) then
        cat [produce USINT GA_SNG_REQ, need (path d) (EPATH_produce enc)]
      else if context_for SA_SNG_REQ (set_attribute_single d) (service d) then
        cat [produce USINT SA_SNG_REQ, need (path d) (EPATH_produce enc),
             need (set_attribute_single d) (typed_data_produce enc)]
      else if service d = Some GA_ALL_RPY then
        cat [produce USINT GA_ALL_RPY, Inr [0], status_produce enc (status d) (status_ext d),
             if status d = Some 0 then need (get_attributes_all d) (typed_data_produce enc) else Inr []]
      else if service d = Some GA_SNG_RPY then
        cat [produce USINT GA_SNG_RPY, Inr [0], status_produce enc (status d) (status_ext d),
             if status d = Some 0 then need (get_attribute_single d) (typed_data_produce enc) else Inr []]
      else if service d = Some SA_SNG_RPY then
        cat [produce USINT SA_SNG_RPY, Inr [0], status_produce enc (status d) (status_ext d)]
      else if service_code d \<noteq> None \<and> service d \<noteq> None \<and> service d \<noteq> Some 0 then
        cat [need (service d) (produce USINT), need (path d) (EPATH_produce enc),
             if has_data (service_code d) then need (service_code d) (typed_data_produce enc) else Inr []]
      else
        (case service d of
           None \<Rightarrow> Inl TypeError
         | Some s \<Rightarrow>
             if s AND 0x80 \<noteq> 0 then
               cat [produce USINT s, Inr [0], status_produce enc (status d) (status_ext d),
                    if status d = Some 0 \<and> has_data (service_code d)
                    then need (service_code d) (typed_data_produce enc) else Inr []]
             else Inl (AssertionError ''unrecognized request/reply format'')))"

lemma le_bytes_1: "le_bytes 1 v = [word_of_int v]"
  by simp

lemma le_bytes_2: "le_bytes 2 v = [word_of_int v, word_of_int (v div 256)]"
  by (simp add: numeral_2_eq_2)

lemma le_bytes_4:
  "le_bytes 4 v = [word_of_int v, word_of_int (v div 256), word_of_int (v div 256 div 256),
                   word_of_int (v div 256 div 256 div 256)]"
  by (simp add: numeral_eq_Suc)

subsection \<open>Attributes read through the registry\<close>

text \<open>
  The property \<open>value\<close>: the backing value of a plain Attribute; for \<open>MaxInstance\<close> the counter
  \<open>lookup( class_id, 0 ).max_instance\<close>; for \<open>NumInstances\<close> the number of ids in
  \<open>1 \<dots> max_instance\<close> that \<open>lookup\<close> finds.  Both subclasses are constructed with the scalar
  default 0.
\<close>

definition value_of :: "world \<Rightarrow> attribute \<Rightarrow> error + attr_data" where
  "value_of w a =
     (case kind a of
        Plain \<Rightarrow> Inr (default_data a)
      | MaxInstance c \<Rightarrow>
          (case lookup w c 0 None of
             Some (Self _) \<Rightarrow> Inr (Scalar (max_instance w c))
           | _ \<Rightarrow> Inl AttributeError)
      | NumInstances c \<Rightarrow>
          (case lookup w c 0 None of
             Some (Self _) \<Rightarrow>
               Inr (Scalar (int (length (filter (\<lambda>i. lookup w c i None \<noteq> None) [1..max_instance w c]))))
           | _ \<Rightarrow> Inl AttributeError))"

definition Attribute_getitem :: "world \<Rightarrow> attribute \<Rightarrow> key \<Rightarrow> error + attr_data" where
  "Attribute_getitem w a k =
     (case validate_key a k of
        Inl e \<Rightarrow> Inl e
      | Inr _ \<Rightarrow> (case value_of w a of Inl e \<Rightarrow> Inl e | Inr v \<Rightarrow> getitem (a\<lparr>default_data := v\<rparr>) k))"

definition Attribute_setitem :: "attribute \<Rightarrow> key \<Rightarrow> attr_data \<Rightarrow> error + attribute" where
  "Attribute_setitem a k v =
     (case kind a of
        Plain \<Rightarrow> setitem a k v
      | _ \<Rightarrow> Inl (AssertionError ''Cannot set value''))"

text \<open>
  \<^verbatim>\<open>
  def produce( self, start=0, stop=None ):
      if stop is None:
          stop = len( self )
      return b''.join( self.parser.produce( v ) for v in self[start:stop] )
  \<close>
\<close>

definition Attribute_produce :: "world \<Rightarrow> attribute \<Rightarrow> error + byte list" where
  "Attribute_produce w a =
     (case Attribute_getitem w a (KSlice (Some 0) (Some (len a)) None) of
        Inl e \<Rightarrow> Inl e
      | Inr (Vector vs) \<Rightarrow> cat (map (produce (parser a)) vs)
      | Inr (Scalar _) \<Rightarrow> Inl TypeError)"

subsection \<open>\<open>Object.request\<close>\<close>

text \<open>The Object's own dict \<open>self.attribute\<close>, found in the directory under the Object's pair.\<close>

definition attribute_dict :: "world \<Rightarrow> int \<times> int \<Rightarrow> attributes" where
  "attribute_dict w self = (case directory w self of None \<Rightarrow> [] | Some atts \<Rightarrow> atts)"

text \<open>
  The keys of \<open>self.attribute\<close> are the strings \<open>str(k)\<close>; \<open>key_at\<close> finds the key that
  \<open>str( a_id )\<close> names, for an \<open>a_id\<close> that is an integer or a string.
\<close>

definition key_at :: "attributes \<Rightarrow> pyval \<Rightarrow> int option" where
  "key_at atts a_id =
     (case a_id of
        PInt i \<Rightarrow> (if map_of atts i = None then None else Some i)
      | PStr s \<Rightarrow> map_option fst (find (\<lambda>kv. str_int (fst kv) = s) atts))"

text \<open>
  The loop of Get Attributes All:
  \<^verbatim>\<open>
  a_id = 1
  while str(a_id) in self.attribute:
      if not ( self.attribute[str(a_id)].mask & Attribute.MASK_GA_ALL ):
          result += self.attribute[str(a_id)].produce()
      a_id += 1
  \<close>
\<close>

function collect_all :: "world \<Rightarrow> attributes \<Rightarrow> int \<Rightarrow> byte list \<Rightarrow> error + byte list" where
  "collect_all w atts a_id result =
     (case map_of atts a_id of
        None \<Rightarrow> Inr result
      | Some (Self _) \<Rightarrow> Inl AttributeError
      | Some (Attr a) \<Rightarrow>
          if mask_bits a AND MASK_GA_ALL = 0 then
            (case Attribute_produce w a of
               Inl e \<Rightarrow> Inl e
             | Inr bs \<Rightarrow> collect_all w atts (a_id + 1) (result @ bs))
          else collect_all w atts (a_id + 1) result)"
  by pat_completeness auto

lemma keys_above_le:
  "length (filter (\<lambda>kv. k + 1 \<le> fst kv) atts) \<le> length (filter (\<lambda>kv. (k::int) \<le> fst kv) atts)"
  by (induction atts) auto

lemma keys_above_member:
  "(k, x) \<in> set atts \<Longrightarrow>
   length (filter (\<lambda>kv. k + 1 \<le> fst kv) atts) < length (filter (\<lambda>kv. (k::int) \<le> fst kv) atts)"
proof (induction atts)
  case Nil
  then show ?case by simp
next
  case (Cons y ys)
  show ?case
  proof (cases "y = (k, x)")
    case True
    then show ?thesis using keys_above_le[of k ys] by simp
  next
    case False
    with Cons.prems have "(k, x) \<in> set ys" by simp
    from Cons.IH[OF this] show ?thesis by auto
  qed
qed

lemma keys_above_decrease:
  assumes "map_of atts k = Some x"
  shows "length (filter (\<lambda>kv. k + 1 \<le> fst kv) atts) < length (filter (\<lambda>kv. (k::int) \<le> fst kv) atts)"
  using assms by (intro keys_above_member map_of_SomeD)

termination collect_all
  by (relation "measure (\<lambda>(w, atts, a_id, result). length (filter (\<lambda>kv. a_id \<le> fst kv) atts))")
     (auto intro: keys_above_decrease)

declare collect_all.simps [simp del]

text \<open>\<open>bytearray( ints )\<close> refuses an integer outside \<open>0 \<dots> 255\<close>.\<close>

definition bytearray :: "int list \<Rightarrow> error + byte list" where
  "bytearray xs = (if list_all (\<lambda>x. 0 \<le> x \<and> x < 256) xs then Inr (map word_of_int xs) else Inl ValueError)"

function chunks :: "nat \<Rightarrow> 'a list \<Rightarrow> 'a list list" where
  "chunks n xs = (if n = 0 \<or> xs = [] then [] else take n xs # chunks n (drop n xs))"
  by pat_completeness auto

termination chunks
  by (relation "measure (\<lambda>(n, xs). length xs)") auto

declare chunks.simps [simp del]

fun collect :: "(error + 'a) list \<Rightarrow> error + 'a list" where
  "collect [] = Inr []"
| "collect (Inl e # rest) = Inl e"
| "collect (Inr x # rest) = (case collect rest of Inl e \<Rightarrow> Inl e | Inr xs \<Rightarrow> Inr (x # xs))"

text \<open>
  The first step of \<open>request\<close>: which of the three services the artifact asks for.  A context
  key without a \<open>service\<close> selects its service by \<open>setdefault\<close>.
\<close>

definition recognise :: "'a artifact_scheme \<Rightarrow> 'a artifact_scheme option" where
  "recognise d =
     (if service d = Some GA_SNG_REQ then Some d
      else if get_attribute_single d \<noteq> None \<and> service d = None then Some (d\<lparr>service := Some GA_SNG_REQ\<rparr>)
      else if service d = Some GA_ALL_REQ then Some d
      else if get_attributes_all d \<noteq> None \<and> service d = None then Some (d\<lparr>service := Some GA_ALL_REQ\<rparr>)
      else if service d = Some SA_SNG_REQ then Some d
      else if set_attribute_single d \<noteq> None \<and> service d = None then Some (d\<lparr>service := Some SA_SNG_REQ\<rparr>)
      else None)"

text \<open>Get Attributes All, after \<open>service\<close> has become the reply code.\<close>

definition get_all :: "int \<times> int \<Rightarrow> 'a artifact_scheme \<Rightarrow> world \<Rightarrow> error + 'a artifact_scheme" where
  "get_all self d w =
     (case collect_all w (attribute_dict w self) 1 [] of
        Inl e \<Rightarrow> Inl e
      | Inr result \<Rightarrow>
          if result = [] then Inl (AssertionError ''No Attributes available for Get Attributes All request'')
          else Inr (d\<lparr>get_attributes_all := Some (Dict (Some (map uint result)))\<rparr>))"

text \<open>
  The Attribute that Get or Set Attribute Single addresses: the last path segment must hold
  \<open>attribute\<close>, the Attribute must exist and must not be masked.
\<close>

definition addressed :: "int \<times> int \<Rightarrow> 'a artifact_scheme \<Rightarrow> world \<Rightarrow> error + (int \<times> attribute)" where
  "addressed self d w =
     (case path d of
        None \<Rightarrow> Inl AttributeError
      | Some segs \<Rightarrow>
          if segs = [] then Inl IndexError
          else case map_of (last segs) ''attribute'' of
                 None \<Rightarrow> Inl (AssertionError ''path must identify Attribute'')
               | Some a_id \<Rightarrow>
                   (case key_at (attribute_dict w self) a_id of
                      None \<Rightarrow> Inl (AssertionError ''specified non-existent Attribute'')
                    | Some k \<Rightarrow>
                        (case map_of (attribute_dict w self) k of
                           Some (Attr a) \<Rightarrow>
                             if mask_bits a AND MASK_GA_SNG \<noteq> 0
                             then Inl (AssertionError ''Attribute not available'')
                             else Inr (k, a)
                         | _ \<Rightarrow> Inl AttributeError)))"

definition get_single :: "int \<times> int \<Rightarrow> 'a artifact_scheme \<Rightarrow> world \<Rightarrow> error + 'a artifact_scheme" where
  "get_single self d w =
     (case addressed self d w of
        Inl e \<Rightarrow> Inl e
      | Inr (k, a) \<Rightarrow>
          (case Attribute_produce w a of
             Inl e \<Rightarrow> Inl e
           | Inr result \<Rightarrow> Inr (d\<lparr>get_attribute_single := Some (Dict (Some (map uint result)))\<rparr>)))"

definition set_single :: "int \<times> int \<Rightarrow> 'a artifact_scheme \<Rightarrow> world \<Rightarrow> error + world" where
  "set_single self d w =
     (case addressed self d w of
        Inl e \<Rightarrow> Inl e
      | Inr (k, att) \<Rightarrow>
          (case set_attribute_single d of
             Some (Dict (Some xs)) \<Rightarrow>
               if int (length xs) \<noteq> int (struct_calcsize (parser att)) * len att
               then Inl (AssertionError ''Expected bytes in .set_attribute_single.data'')
               else (case bytearray xs of
                       Inl e \<Rightarrow> Inl e
                     | Inr buf \<Rightarrow>
                         if struct_calcsize (parser att) = 0 then Inl ValueError
                         else (case collect (map (struct_unpack (parser att))
                                              (chunks (struct_calcsize (parser att)) buf)) of
                                 Inl e \<Rightarrow> Inl e
                               | Inr val \<Rightarrow>
                                   (case Attribute_setitem att (KSlice None None None) (Vector val) of
                                      Inl e \<Rightarrow> Inl e
                                    | Inr att' \<Rightarrow> Inr (set_slot w self k (Attr att')))))
           | _ \<Rightarrow> Inl (AssertionError ''Expected bytes in .set_attribute_single.data'')))"

text \<open>
  The body of the \<open>try\<close> block.  It answers the artifact as the block left it, the exception
  that ended it if one did, and the registry.
\<close>

definition Object_service ::
  "int \<times> int \<Rightarrow> 'a artifact_scheme \<Rightarrow> world \<Rightarrow> (error option \<times> 'a artifact_scheme) \<times> world" where
  "Object_service self d w =
     (case recognise d of
        None \<Rightarrow> ((Some (AssertionError ''Unrecognized Service Request''), d), w)
      | Some d1 \<Rightarrow>
          let d2 = d1\<lparr>service := map_option (\<lambda>s. s OR 0x80) (service d1)\<rparr> in
          if service d2 = Some GA_ALL_RPY then
            (case get_all self d2 w of
               Inl e \<Rightarrow> ((Some e, d2), w)
             | Inr d3 \<Rightarrow> ((None, d3\<lparr>status := Some 0, status_ext := None\<rparr>), w))
          else if service d2 = Some GA_SNG_RPY then
            (case get_single self d2 w of
               Inl e \<Rightarrow> ((Some e, d2), w)
             | Inr d3 \<Rightarrow> ((None, d3\<lparr>status := Some 0, status_ext := None\<rparr>), w))
          else if service d2 = Some SA_SNG_RPY then
            (case set_single self d2 w of
               Inl e \<Rightarrow> ((Some e, d2), w)
             | Inr w' \<Rightarrow> ((None, d2\<lparr>status := Some 0, status_ext := None\<rparr>), w'))
          else ((Some (AssertionError ''Unrecognized Service Reply''), d2), w))"

text \<open>
  \<open>request\<close>: the status is preset to 0x08, the \<open>try\<close> block runs, an exception is logged (the
  handler asserts that the status is not 0), and the reply is encoded into \<open>data.input\<close> by the
  \<open>produce\<close> of the Object's class, here the parameter \<open>encode\<close>.  An exception of the encoder
  leaves the call.  The result is the artifact, the exception that left the call if one did,
  and the registry.
\<close>

definition Object_request ::
  "('a artifact_scheme \<Rightarrow> error + byte list) \<Rightarrow> int \<times> int \<Rightarrow> 'a artifact_scheme \<Rightarrow> world
     \<Rightarrow> (error option \<times> 'a artifact_scheme) \<times> world" where
  "Object_request encode self d w =
     (case Object_service self (d\<lparr>status := Some 0x08, status_ext := None\<rparr>) w of
        ((exc, d1), w1) \<Rightarrow>
          if exc \<noteq> None \<and> status d1 = Some 0 then
            ((Some (AssertionError ''Implementation error: must specify .status''), d1), w1)
          else (case encode d1 of
                  Inl e \<Rightarrow> ((Some e, d1), w1)
                | Inr bs \<Rightarrow> ((None, d1\<lparr>input := Some bs\<rparr>), w1)))"

section \<open>The Message Router\<close>

text \<open>
  A Multiple Service Packet carries the list \<open>data.multiple.request\<close> of its sub-requests.
  The sub-requests are artifacts; a packet is an artifact with the context \<open>multiple\<close>.
\<close>

record multiple_context =
  request :: "artifact list option"

record packet = artifact +
  multiple :: "multiple_context option"

definition MULTIPLE_REQ :: int where "MULTIPLE_REQ = 0x0A"
definition MULTIPLE_RPY :: int where "MULTIPLE_RPY = 0x8A"

subsection \<open>\<open>Message_Router.produce\<close>\<close>

text \<open>
  The loop that both branches run over the encoded parts, last part first:
  \<^verbatim>\<open>
  offsets = []
  rpydata = b''
  for r in reversed( data.multiple.request ):
      rpy     = octets_encode( r.input )
      offsets = [ 0 ] + [ o + len( rpy ) for o in offsets ]
      rpydata = rpy + rpydata
  \<close>
\<close>

fun offsets_loop :: "byte list list \<Rightarrow> int list \<Rightarrow> byte list \<Rightarrow> int list \<times> byte list" where
  "offsets_loop [] offsets rpydata = (offsets, rpydata)"
| "offsets_loop (rpy # rest) offsets rpydata =
     offsets_loop rest (0 # map (\<lambda>off. off + int (length rpy)) offsets) (rpy @ rpydata)"

text \<open>
  \<^verbatim>\<open>
  result += UINT.produce( len( offsets ))
  for o in offsets:
      result += UINT.produce( 2 + 2 * len( offsets ) + o )
  result += rpydata
  \<close>
\<close>

definition encode_multiple :: "byte list list \<Rightarrow> error + byte list" where
  "encode_multiple parts =
     (case offsets_loop (rev parts) [] [] of
        (offsets, rpydata) \<Rightarrow>
          cat (produce UINT (int (length offsets))
               # map (\<lambda>off. produce UINT (2 + 2 * int (length offsets) + off)) offsets
               @ [Inr rpydata]))"

text \<open>
  \<open>cls.produce( r )\<close> for a sub-request: an artifact has no \<open>multiple\<close>, so only the reply
  branch of the Message Router can apply before \<open>Object.produce\<close> does.
\<close>

definition produce_nested :: "codec \<Rightarrow> artifact \<Rightarrow> error + byte list" where
  "produce_nested enc r =
     (if service r = Some MULTIPLE_RPY then
        cat [produce USINT MULTIPLE_RPY, Inr [0], status_produce enc (status r) (status_ext r),
             if status r = Some 0 then Inl AttributeError else Inr []]
      else Object_produce enc r)"

definition Message_Router_produce :: "codec \<Rightarrow> 'a packet_scheme \<Rightarrow> error + byte list" where
  "Message_Router_produce enc d =
     (if context_for MULTIPLE_REQ (multiple d) (service d) then
        (case need (multiple d) (\<lambda>m. need (request m) (\<lambda>rs. collect (map (produce_nested enc) (rev rs)))) of
           Inl e \<Rightarrow> Inl e
         | Inr reqs \<Rightarrow>
             cat [produce USINT MULTIPLE_REQ,
                  EPATH_produce enc (case path d of
                                       Some segs \<Rightarrow> segs
                                     | None \<Rightarrow> [[(''class'', PInt 0x02)], [(''instance'', PInt 1)]]),
                  encode_multiple (rev reqs)])
      else if service d = Some MULTIPLE_RPY then
        cat [produce USINT MULTIPLE_RPY, Inr [0], status_produce enc (status d) (status_ext d),
             if status d = Some 0 then
               (case need (multiple d) (\<lambda>m. need (request m)
                       (\<lambda>rs. collect (map (\<lambda>r. need (input r) Inr) (rev rs)))) of
                  Inl e \<Rightarrow> Inl e
                | Inr rpys \<Rightarrow> encode_multiple (rev rpys))
             else Inr []]
      else Object_produce enc d)"

subsection \<open>\<open>Message_Router.route\<close> and \<open>Message_Router.request\<close>\<close>

text \<open>
  \<open>route\<close> answers \<open>None\<close> when the request has no path or addresses the router itself, the
  Object that \<open>lookup\<close> finds otherwise (\<open>None\<close> again when there is none); when resolving
  fails it answers \<open>False\<close> or raises, as \<open>fail\<close> asks.  The model covers paths whose class and
  instance are integers, as the path parser produces them; for another value it raises.
\<close>

datatype routed = To_self | Invalid | Target "int \<times> int" slot









text \<open>
  Modelled from the spec: a codec for replies, used to evaluate the encoders on examples.
  The status is encoded as the reply layout in the documentation of
  \<open>Message_Router.produce\<close> shows it (general status, then the size of the extended status and
  its words), typed data of type \<open>USINT\<close> as one byte per element.  It refuses to encode a
  path, since neither the file nor the specification show that encoding in full.
\<close>

definition reply_codec :: codec where
  "reply_codec =
     \<lparr>EPATH_produce = (\<lambda>segs. Inl ValueError),
      EPATH_padded_produce = (\<lambda>segs. Inl ValueError),
      typed_data_produce =
        (\<lambda>p. case p of Dict (Some xs) \<Rightarrow> cat (map (produce USINT) xs) | _ \<Rightarrow> Inl AttributeError),
      typed_application_produce =
        (\<lambda>app. case app_data app of Some xs \<Rightarrow> cat (map (produce USINT) xs) | None \<Rightarrow> Inl AttributeError),
      status_produce =
        (\<lambda>st ext. case st of
             None \<Rightarrow> Inl AttributeError
           | Some v \<Rightarrow>
               cat (produce USINT v
                    # produce USINT (case ext of None \<Rightarrow> 0 | Some ws \<Rightarrow> int (length ws))
                    # map (produce UINT) (case ext of None \<Rightarrow> [] | Some ws \<Rightarrow> ws)))\<rparr>"

text \<open>An artifact with no key set.\<close>

definition empty_artifact :: artifact where
  "empty_artifact =
     \<lparr>service = None, status = None, status_ext = None, path = None, input = None,
      get_attributes_all = None, get_attribute_single = None, set_attribute_single = None,
      service_code = None, forward_open = None, forward_close = None, request_input = None\<rparr>"

definition empty_packet :: packet where
  "empty_packet = artifact.extend empty_artifact (packet.fields None)"

text \<open>
  The offsets that the reply carries for the parts \<open>r.input\<close> of its sub-replies, as the loop
  and the encoder compute them.
\<close>

definition emitted_offsets :: "byte list list \<Rightarrow> int list" where
  "emitted_offsets parts =
     map (\<lambda>off. 2 + 2 * int (length (fst (offsets_loop (rev parts) [] []))) + off)
         (fst (offsets_loop (rev parts) [] []))"

section \<open>The Connection Manager\<close>

definition FWD_OPEN_REQ :: int where "FWD_OPEN_REQ = 0x54"
definition FWD_OPEN_RPY :: int where "FWD_OPEN_RPY = 0xD4"
definition FWD_CLOS_REQ :: int where "FWD_CLOS_REQ = 0x4E"
definition FWD_CLOS_RPY :: int where "FWD_CLOS_RPY = 0xCE"

text \<open>
  \<^verbatim>\<open>
  def forward_open( self, data ):
      fo                   = data.forward_open
      fo.T_O_connection_ID = random.randint( 0, 2**32-1 )
      fo.O_T_API           = fo.O_T_RPI
      fo.T_O_API           = fo.T_O_RPI
      data.status          = 0
  \<close>
  The number that \<open>random.randint( 0, 2**32-1 )\<close> returns is the argument \<open>drawn\<close>; it is any
  integer from 0 to \<open>2**32-1\<close>, both included.
\<close>

definition Connection_Manager_forward_open :: "int \<Rightarrow> 'a artifact_scheme \<Rightarrow> error + 'a artifact_scheme" where
  "Connection_Manager_forward_open drawn d =
     (case forward_open d of
        None \<Rightarrow> Inl AttributeError
      | Some fo \<Rightarrow>
          Inr (d\<lparr>forward_open :=
                    Some (fo\<lparr>T_O_connection_ID := drawn,
                             O_T_API := Some (O_T_RPI fo),
                             T_O_API := Some (T_O_RPI fo)\<rparr>),
                 status := Some 0\<rparr>))"

text \<open>
  The tail of both replies: the application data, typed \<open>USINT\<close> unless the dict says
  otherwise, padded to an even number of bytes; its size in words, a pad byte, the data.
\<close>

definition application_tail :: "codec \<Rightarrow> application option \<Rightarrow> error + byte list" where
  "application_tail enc app =
     (case (case app of None \<Rightarrow> None | Some a \<Rightarrow> app_data a) of
        Some (x # xs) \<Rightarrow>
          (case typed_application_produce enc
                  (case app of
                     None \<Rightarrow> \<lparr>app_data = Some (x # xs), app_type = None, app_tag_type = None\<rparr>
                   | Some a \<Rightarrow> a) of
             Inl e \<Rightarrow> Inl e
           | Inr bs \<Rightarrow>
               let padded = (if odd (length bs) then bs @ [0] else bs) in
               cat [produce USINT (int (length padded div 2)), Inr [0],
                    Inr (if length padded div 2 \<noteq> 0 then padded else [])])
      | _ \<Rightarrow> cat [produce USINT 0, Inr [0]])"

definition Connection_Manager_produce :: "codec \<Rightarrow> 'a artifact_scheme \<Rightarrow> error + byte list" where
  "Connection_Manager_produce enc d =
     (if context_for FWD_OPEN_REQ (forward_open d) (service d) then
        need (forward_open d) (\<lambda>fo.
          cat [produce USINT FWD_OPEN_REQ, need (path d) (EPATH_produce enc),
               produce USINT (priority_time_tick fo), produce USINT (timeout_ticks fo),
               produce UDINT (O_T_connection_ID fo), produce UDINT (T_O_connection_ID fo),
               produce UINT (connection_serial fo), produce UINT (O_vendor fo),
               produce UDINT (O_serial fo), produce USINT (connection_timeout_multiplier fo),
               Inr [0, 0, 0],
               produce UDINT (O_T_RPI fo), produce WORD (O_T_NCP fo),
               produce UDINT (T_O_RPI fo), produce WORD (T_O_NCP fo),
               produce USINT (transport_class_triggers fo),
               EPATH_produce enc (connection_path fo)])
      else if service d = Some FWD_OPEN_RPY then
        cat [produce USINT FWD_OPEN_RPY, Inr [0], status_produce enc (status d) (status_ext d),
             need (forward_open d) (\<lambda>fo.
               cat [produce UDINT (O_T_connection_ID fo), produce UDINT (T_O_connection_ID fo),
                    produce UINT (connection_serial fo), produce UINT (O_vendor fo),
                    produce UDINT (O_serial fo),
                    need (O_T_API fo) (produce UDINT), need (T_O_API fo) (produce UDINT),
                    application_tail enc (application fo)])]
      else if context_for FWD_CLOS_REQ (forward_close d) (service d) then
        need (forward_close d) (\<lambda>fc.
          cat [produce USINT FWD_CLOS_REQ, need (path d) (EPATH_produce enc),
               produce USINT (fc_priority_time_tick fc), produce USINT (fc_timeout_ticks fc),
               produce UINT (fc_connection_serial fc), produce UINT (fc_O_vendor fc),
               produce UDINT (fc_O_serial fc),
               EPATH_padded_produce enc (fc_connection_path fc)])
      else if service d = Some FWD_CLOS_RPY then
        cat [produce USINT FWD_CLOS_RPY, Inr [0], status_produce enc (status d) (status_ext d),
             need (forward_close d) (\<lambda>fc.
               cat [produce UINT (fc_connection_serial fc), produce UINT (fc_O_vendor fc),
                    produce UDINT (fc_O_serial fc),
                    application_tail enc (fc_application fc)])]
      else Inl (AssertionError ''unrecognized request/reply format''))"

text \<open>
  \<open>Connection_Manager.request\<close>.  A Forward Open is handled here.  Anything else must be an
  Unconnected Send that carries \<open>request.input\<close>; what follows the assertion runs the parsers
  of the target Object, which are not part of the file, and is the parameter \<open>unconnected\<close>.
\<close>

definition Connection_Manager_request ::
  "codec \<Rightarrow> ('a artifact_scheme \<Rightarrow> world \<Rightarrow> (error option \<times> 'a artifact_scheme) \<times> world) \<Rightarrow> int
     \<Rightarrow> 'a artifact_scheme \<Rightarrow> world \<Rightarrow> (error option \<times> 'a artifact_scheme) \<times> world" where
  "Connection_Manager_request enc unconnected drawn d w =
     (if context_for FWD_OPEN_REQ (forward_open d) (service d) then
        let d1 = d\<lparr>service := Some FWD_OPEN_RPY, status := Some 8\<rparr>;
            tried = Connection_Manager_forward_open drawn d1;
            d2 = (case tried of Inl e \<Rightarrow> d1 | Inr d' \<Rightarrow> d')
        in if (case tried of Inl e \<Rightarrow> True | Inr d' \<Rightarrow> False) \<and> (status d2 = None \<or> status d2 = Some 0)
           then ((Some (AssertionError ''Implementation error: must specify non-zero .status''), d2), w)
           else (case Connection_Manager_produce enc d2 of
                   Inl e \<Rightarrow> ((Some e, d2), w)
                 | Inr bs \<Rightarrow> ((None, d2\<lparr>input := Some bs\<rparr>), w))
      else if request_input d = None then
        ((Some (AssertionError ''Unconnected Send message with absent or empty request''), d), w)
      else unconnected d w)"

section \<open>The Unconnected Message Manager: Register Session\<close>

text \<open>
  \<open>sessions\<close> maps the address of a peer to its session handle.  \<open>data.addr\<close> is whatever the
  transport supplies, usually the pair of host and port of the socket; an address can equal
  an integer only if it is one.
\<close>

datatype peer = Socket_address string int | Integer_address int

type_synonym sessions = "(peer \<times> int) list"

text \<open>\<open>session in self.__class__.sessions\<close>: membership in a dict is membership among its keys.\<close>

definition in_sessions :: "int \<Rightarrow> sessions \<Rightarrow> bool" where
  "in_sessions session table = (Integer_address session \<in> set (map fst table))"

text \<open>
  \<^verbatim>\<open>
  session = random.randint( 0, 2**32 )
  while not session or session in self.__class__.sessions:
      session = random.randint( 0, 2**32 )
  \<close>
  The numbers that the successive calls of \<open>random.randint( 0, 2**32 )\<close> return are the list
  \<open>draws\<close>, each from 0 to \<open>2**32\<close>, both included.  The loop answers the handle and the draws not
  consumed, or \<open>None\<close> when the list ends while the loop is still drawing.
\<close>

fun draw_session :: "sessions \<Rightarrow> int list \<Rightarrow> (int \<times> int list) option" where
  "draw_session table [] = None"
| "draw_session table (session # draws) =
     (if session = 0 \<or> in_sessions session table then draw_session table draws
      else Some (session, draws))"

text \<open>
  The Register Session branch of \<open>UCMM.request\<close>:
  \<^verbatim>\<open>
  self.__class__.sessions[data.addr] = session
  data.enip.session_handle = session
  \<close>
  It answers the handle now in \<open>data.enip.session_handle\<close>, the table and the draws left.
\<close>

definition register_session :: "sessions \<Rightarrow> peer \<Rightarrow> int list \<Rightarrow> (int \<times> sessions \<times> int list) option" where
  "register_session table addr draws =
     (case draw_session table draws of
        None \<Rightarrow> None
      | Some (session, rest) \<Rightarrow> Some (session, assign addr session table, rest))"

text \<open>\<open>self.__class__.sessions.pop( data.addr, None )\<close> of Unregister Session.\<close>

definition unregister_session :: "sessions \<Rightarrow> peer \<Rightarrow> sessions" where
  "unregister_session table addr = pop addr table"

section \<open>Example requests\<close>

text \<open>
  A parsed Forward Open request with the originator's connection id 0x12345678, and a stand-in
  for the part of \<open>Connection_Manager.request\<close> that is a parameter.
\<close>

definition forward_open_example :: forward_open_context where
  "forward_open_example =
     \<lparr>priority_time_tick = 5, timeout_ticks = 157,
      O_T_connection_ID = 0x12345678, T_O_connection_ID = 0,
      connection_serial = 7, O_vendor = 1, O_serial = 99,
      connection_timeout_multiplier = 0,
      O_T_RPI = 2000, O_T_NCP = 500, T_O_RPI = 3000, T_O_NCP = 501,
      transport_class_triggers = 163, connection_path = [],
      O_T_API = None, T_O_API = None, application = None\<rparr>"

definition forward_open_request :: artifact where
  "forward_open_request = empty_artifact\<lparr>service := Some 0x54, forward_open := Some forward_open_example\<rparr>"

definition not_unconnected :: "artifact \<Rightarrow> world \<Rightarrow> (error option \<times> artifact) \<times> world" where
  "not_unconnected d w = ((Some (AssertionError ''parsers are not modelled''), d), w)"

text \<open>
  A Multiple Service Packet reply with status 0 whose two sub-requests have been answered
  with replies of 3 and 2 bytes.
\<close>

definition multiple_reply_example :: packet where
  "multiple_reply_example =
     empty_packet\<lparr>service := Some 0x8A, status := Some 0,
        multiple := Some \<lparr>request = Some [empty_artifact\<lparr>input := Some [1, 2, 3]\<rparr>,
                                          empty_artifact\<lparr>input := Some [4, 5]\<rparr>]\<rparr>\<rparr>"








section \<open>Verified properties\<close>

subsection \<open>Integer parsing\<close>

lemma is_digit_not_underscore: "is_digit b c \<Longrightarrow> c \<noteq> CHR ''_''"
  by (auto simp: is_digit_def digit_val_def)

lemma is_digit_not_space: "is_digit b c \<Longrightarrow> \<not> py_isspace c"
  by (auto simp: is_digit_def digit_val_def py_isspace_def Let_def split: if_splits)

lemma is_digit_not_sign: "is_digit b c \<Longrightarrow> c \<noteq> CHR ''+'' \<and> c \<noteq> CHR ''-''"
  by (auto simp: is_digit_def digit_val_def)

lemma scan_digits_all:
  "list_all (is_digit b) ds \<Longrightarrow>
   scan_digits b prev acc n ds =
     Some (foldl (\<lambda>a c. a * b + the (digit_val c)) acc ds, n + length ds,
           (if ds = [] then prev else last ds), [])"
  by (induction ds arbitrary: prev acc n) (auto dest: is_digit_not_underscore)

lemma strip_prefix_digits:
  "list_all (is_digit b) ds \<Longrightarrow> strip_prefix b ds = ds"
  by (auto simp: strip_prefix_def is_digit_def digit_val_def split: list.splits)

lemma py_int_digits:
  assumes "ds \<noteq> []" and "list_all (is_digit (nat base)) ds" and "2 \<le> base" and "base \<le> 36"
  shows "py_int ds base = Inr (int (digits_value (nat base) ds))"
proof -
  obtain c cs where ds: "ds = c # cs" using assms(1) by (cases ds) auto
  have c: "is_digit (nat base) c" using assms(2) ds by simp
  have sp: "\<not> py_isspace c" using c by (rule is_digit_not_space)
  have sg: "c \<noteq> CHR ''+''" "c \<noteq> CHR ''-''" "c \<noteq> CHR ''_''"
    using c is_digit_not_sign is_digit_not_underscore by auto
  have "is_digit (nat base) (last (c # cs))"
    using assms(2) unfolding ds list_all_iff by (metis last_in_set list.distinct(1))
  then have l: "last (c # cs) \<noteq> CHR ''_''"
    by (rule is_digit_not_underscore)
  have st: "strip_prefix (nat base) (c # cs) = c # cs"
    using strip_prefix_digits[OF assms(2)] unfolding ds .
  have sc: "scan_digits (nat base) (CHR 0x00) 0 0 (c # cs) =
      Some (digits_value (nat base) (c # cs), length (c # cs), last (c # cs), [])"
    using scan_digits_all[OF assms(2), of "CHR 0x00" 0 0] unfolding ds digits_value_def by simp
  show ?thesis
    unfolding ds py_int_def
    using assms(3,4) sg l sp by (simp add: Let_def st sc del: scan_digits.simps last.simps)
qed

text \<open>
  Claim C7.  \<open>parse_int\<close> reads a string of digits in the requested base (10 unless another
  base between 2 and 36 is given) to its positional value, however many leading zeros it has: a
  leading zero never selects octal.  The explicit prefixes still select the base:
  \<open>parse_int("012") == 12\<close>, \<open>parse_int("0o12") == 10\<close>, and \<open>0x\<close>, \<open>0b\<close> give base 16 and 2.
\<close>

theorem parse_int_leading_zero:
  "(ds \<noteq> [] \<and> list_all (is_digit (nat base)) ds \<and> 2 \<le> base \<and> base \<le> 36
      \<longrightarrow> parse_int ds base = Inr (int (digits_value (nat base) ds)))
   \<and> parse_int ''012'' 10 = Inr 12
   \<and> parse_int ''0o12'' 10 = Inr 10
   \<and> parse_int ''0x1A'' 10 = Inr 26
   \<and> parse_int ''0b100110'' 10 = Inr 38"
proof (intro conjI impI)
  assume "ds \<noteq> [] \<and> list_all (is_digit (nat base)) ds \<and> 2 \<le> base \<and> base \<le> 36"
  then show "parse_int ds base = Inr (int (digits_value (nat base) ds))"
    by (simp add: parse_int_def py_int_digits)
qed (simp_all add: parse_int_def py_int_def py_isspace_def strip_prefix_def is_digit_def
       digit_val_def deduce_base_def)

theorem parse_int_leading_zero_witness:
  "''00420'' \<noteq> [] \<and> list_all (is_digit (nat 10)) ''00420'' \<and> (2::int) \<le> 10 \<and> (10::int) \<le> 36
   \<and> parse_int ''00420'' 10 = Inr 420"
  using parse_int_leading_zero [of "''00420''" 10]
  by (simp add: is_digit_def digit_val_def digits_value_def)

subsection \<open>Attribute indexing\<close>

lemma validate_key_int: "validate_key a (KInt i) = (if len a \<le> i then Inl KeyError else Inr IsInt)"
  by (simp add: validate_key_def)

text \<open>
  Claim C9.  For an integer key \<open>_validate_key\<close> checks the upper bound only: it raises
  \<open>KeyError\<close> exactly when \<open>key >= len(self)\<close>, so every negative integer passes.  On a vector
  Attribute a negative index within \<open>-len \<dots> -1\<close> then reads and writes the element counted
  from the end (\<open>attr[-1]\<close> is the last element), whereas a key that is too large fails with
  \<open>KeyError\<close>.
\<close>

theorem validate_key_negative_index:
  "(validate_key a (KInt i) = Inl KeyError \<longleftrightarrow> len a \<le> i)
   \<and> (i < 0 \<longrightarrow> validate_key a (KInt i) = Inr IsInt)
   \<and> (default_data a = Vector xs \<and> - int (length xs) \<le> i \<and> i < 0 \<longrightarrow>
        getitem a (KInt i) = Inr (Scalar (xs ! nat (int (length xs) + i)))
        \<and> setitem a (KInt i) (Scalar v) =
            Inr (a\<lparr>default_data := Vector (xs[nat (int (length xs) + i) := v])\<rparr>))
   \<and> (default_data a = Vector xs \<and> xs \<noteq> [] \<longrightarrow> getitem a (KInt (- 1)) = Inr (Scalar (last xs)))
   \<and> (len a \<le> i \<longrightarrow> getitem a (KInt i) = Inl KeyError \<and> setitem a (KInt i) (Scalar v) = Inl KeyError)"
proof (intro conjI impI)
  show "validate_key a (KInt i) = Inl KeyError \<longleftrightarrow> len a \<le> i"
    by (simp add: validate_key_int)
next
  assume "i < 0"
  moreover have "0 \<le> len a" by (simp add: len_def split: attr_data.split)
  ultimately show "validate_key a (KInt i) = Inr IsInt"
    by (simp add: validate_key_int)
next
  assume h: "default_data a = Vector xs \<and> - int (length xs) \<le> i \<and> i < 0"
  then have v: "validate_key a (KInt i) = Inr IsInt"
    by (simp add: validate_key_int len_def)
  from h show "getitem a (KInt i) = Inr (Scalar (xs ! nat (int (length xs) + i)))"
    by (simp add: getitem_def v list_getitem_def norm_index_def)
next
  assume h: "default_data a = Vector xs \<and> - int (length xs) \<le> i \<and> i < 0"
  then have v: "validate_key a (KInt i) = Inr IsInt"
    by (simp add: validate_key_int len_def)
  from h show "setitem a (KInt i) (Scalar v) =
      Inr (a\<lparr>default_data := Vector (xs[nat (int (length xs) + i) := v])\<rparr>)"
    by (simp add: setitem_def v list_setitem_def norm_index_def)
next
  assume h: "default_data a = Vector xs \<and> xs \<noteq> []"
  then have v: "validate_key a (KInt (- 1)) = Inr IsInt"
    by (simp add: validate_key_int len_def)
  have "nat (int (length xs) - 1) = length xs - 1" by simp
  moreover from h have "Suc 0 \<le> length xs" by (cases xs) auto
  ultimately show "getitem a (KInt (- 1)) = Inr (Scalar (last xs))"
    using h by (simp add: getitem_def v list_getitem_def norm_index_def last_conv_nth)
next
  assume "len a \<le> i"
  then show "getitem a (KInt i) = Inl KeyError"
    by (simp add: getitem_def validate_key_int)
next
  assume "len a \<le> i"
  then show "setitem a (KInt i) (Scalar v) = Inl KeyError"
    by (simp add: setitem_def validate_key_int)
qed

text \<open>A vector of three elements: index \<open>-1\<close> reads 30 and writes the last cell; index 3 fails.\<close>

theorem validate_key_negative_index_witness:
  "validate_key \<lparr>name = ''v'', default_data = Vector [10, 20, 30],
       parser = \<lparr>produce = (\<lambda>_. Inr []), struct_calcsize = 1, struct_unpack = (\<lambda>_. Inr 0)\<rparr>,
       error_code = 0, mask_bits = 0, kind = Plain\<rparr> (KInt (- 1)) = Inr IsInt
   \<and> getitem \<lparr>name = ''v'', default_data = Vector [10, 20, 30],
       parser = \<lparr>produce = (\<lambda>_. Inr []), struct_calcsize = 1, struct_unpack = (\<lambda>_. Inr 0)\<rparr>,
       error_code = 0, mask_bits = 0, kind = Plain\<rparr> (KInt (- 1)) = Inr (Scalar 30)
   \<and> map_sum id default_data (setitem \<lparr>name = ''v'', default_data = Vector [10, 20, 30],
       parser = \<lparr>produce = (\<lambda>_. Inr []), struct_calcsize = 1, struct_unpack = (\<lambda>_. Inr 0)\<rparr>,
       error_code = 0, mask_bits = 0, kind = Plain\<rparr> (KInt (- 1)) (Scalar 7)) = Inr (Vector [10, 20, 7])"
  using validate_key_negative_index [of
      "\<lparr>name = ''v'', default_data = Vector [10, 20, 30],
        parser = \<lparr>produce = (\<lambda>_. Inr []), struct_calcsize = 1, struct_unpack = (\<lambda>_. Inr 0)\<rparr>,
        error_code = 0, mask_bits = 0, kind = Plain\<rparr>" "- 1" "[10, 20, 30]" 7]
  by simp

subsection \<open>Path resolution\<close>

lemma pull_key_spec:
  "pull_key k cur w =
     (if clashes cur (map_of w k) then Inl (AssertionError ''Failed to override'')
      else Inr (filled cur (map_of w k), if map_of w k = None then w else pop k w))"
  by (auto simp: pull_key_def clashes_def filled_def split: option.splits)

lemma pop_absent: "map_of w k = None \<Longrightarrow> pop k w = w"
  by (induction w) (auto simp: pop_def split: if_splits)

lemma pull_key_spec':
  "pull_key k cur w =
     (if clashes cur (map_of w k) then Inl (AssertionError ''Failed to override'')
      else Inr (filled cur (map_of w k), pop k w))"
  by (simp add: pull_key_spec pop_absent)

lemma pull_spec:
  "pull r seg =
     (case spec_fill r seg of
        Inl f \<Rightarrow> Inl (failure_message f)
      | Inr r' \<Rightarrow> Inr (r', pop ''attribute'' (pop ''instance'' (pop ''class'' seg))))"
  by (cases r) (auto simp: pull_def pull_key_spec' spec_fill_def map_of_pop failure_message_def)

lemma pop3_empty:
  "pop ''attribute'' (pop ''instance'' (pop ''class'' seg)) = [] \<longleftrightarrow> other_keys seg = []"
  by (induction seg) (auto simp: pop_def other_keys_def)

lemma map_of_pop3_symbolic:
  "map_of (pop ''attribute'' (pop ''instance'' (pop ''class'' seg))) ''symbolic'' = map_of seg ''symbolic''"
  by (simp add: map_of_pop)

lemma while_working_address:
  "while_working tab r tag (address_dict (c, i, a)) =
     (if r = (None, None, None) then Inr ((Some c, Some i, Some a), tag)
      else Inl (AssertionError ''Failed to override''))"
proof -
  obtain rc ri ra where r: "r = (rc, ri, ra)" by (cases r)
  show ?thesis
    unfolding r
    by (subst while_working.simps)
       (auto simp: address_dict_def pull_def pull_key_def pop_def split: option.splits)
qed

lemma while_working_spec:
  "while_working tab r tag seg = map_sum failure_message id (spec_step tab (r, tag) seg)"
proof (cases "seg = []")
  case True
  obtain c i a where r: "r = (c, i, a)" by (cases r)
  show ?thesis
    using True
    by (subst while_working.simps)
       (simp add: r spec_step_def spec_fill_def other_keys_def clashes_def filled_def)
next
  case False
  show ?thesis
  proof (cases "spec_fill r seg")
    case (Inl f)
    then show ?thesis
      using False
      by (subst while_working.simps) (simp add: pull_spec spec_step_def)
  next
    case (Inr r')
    show ?thesis
    proof (cases "other_keys seg = []")
      case True
      then show ?thesis
        using False Inr
        by (subst while_working.simps) (simp add: pull_spec spec_step_def pop3_empty)
    next
      case ok: False
      show ?thesis
      proof (cases "map_of seg ''symbolic''")
        case None
        then show ?thesis
          using False Inr ok
          by (subst while_working.simps)
             (simp add: pull_spec spec_step_def pop3_empty map_of_pop3_symbolic failure_message_def)
      next
        case (Some s)
        show ?thesis
        proof (cases "tab (extend_tag tag (str s))")
          case None
          then show ?thesis
            using False Inr ok Some
            by (subst while_working.simps)
               (simp add: pull_spec spec_step_def pop3_empty map_of_pop3_symbolic Let_def)
        next
          case (Some addr)
          obtain c i a where addr: "addr = (c, i, a)" by (cases addr)
          show ?thesis
            using False Inr ok \<open>map_of seg ''symbolic'' = Some s\<close> Some
            by (subst while_working.simps)
               (simp add: pull_spec spec_step_def pop3_empty map_of_pop3_symbolic Let_def addr
                  while_working_address failure_message_def)
        qed
      qed
    qed
  qed
qed

lemma walk_spec:
  "walk tab attribute r tag segs = map_sum failure_message id (spec_walk tab attribute (r, tag) segs)"
proof (induction segs arbitrary: r tag)
  case Nil
  show ?case by simp
next
  case (Cons seg rest)
  show ?case
  proof (cases "spec_step tab (r, tag) seg")
    case (Inl f)
    then show ?thesis by (simp add: while_working_spec)
  next
    case (Inr st')
    obtain r' tag' where st': "st' = (r', tag')" by (cases st')
    show ?thesis using Inr st' Cons.IH[of r' tag'] by (simp add: while_working_spec)
  qed
qed

text \<open>
  Claim C8, as the code has it.  \<open>resolve(path, attribute)\<close> walks the segments in order and
  stops as soon as every required field is set; it fails exactly when the rule of section 4.2
  fails, that is when (1) a walked segment, or the address substituted for a resolved tag,
  would overwrite a field that is already set, (2) a walked segment has keys besides
  \<open>class\<close>, \<open>instance\<close> and \<open>attribute\<close> but no \<open>symbolic\<close> name (an invalid term, reported as
  an unrecognized symbolic name when a tag is pending), (3) a symbolic tag is still
  unresolved at the end, or (4) a required field (class, instance, or, with
  \<open>attribute=True\<close>, attribute) is still unset at the end; otherwise it returns the triple
  (class, instance, attribute or \<open>None\<close>).
\<close>

theorem resolve_refines_spec:
  "resolve tab segs attribute = map_sum failure_message id (spec_resolve tab segs attribute)"
proof (cases "spec_walk tab attribute ((None, None, None), []) segs")
  case (Inl f)
  then show ?thesis by (simp add: resolve_def spec_resolve_def walk_spec)
next
  case (Inr st)
  obtain c i a tag where st: "st = ((c, i, a), tag)" by (cases st) auto
  show ?thesis
    using Inr st
    by (auto simp: resolve_def spec_resolve_def walk_spec desired_def failure_message_def)
qed

text \<open>
  The tag \<open>SCADA\<close> redirected to (0x1A2, 1, 1): the path \<open>SCADA[12]\<close> resolves to that address,
  and an \<open>element\<close> segment met before the fields are filled is an invalid term.
\<close>

theorem resolve_refines_spec_witness:
  "resolve [''SCADA'' \<mapsto> (PInt 418, PInt 1, PInt 1)]
      [[(''symbolic'', PStr ''SCADA''), (''length'', PInt 5)], [(''element'', PInt 12)]] True
     = Inr (PInt 418, PInt 1, Some (PInt 1))
   \<and> spec_resolve [''SCADA'' \<mapsto> (PInt 418, PInt 1, PInt 1)]
      [[(''symbolic'', PStr ''SCADA''), (''length'', PInt 5)], [(''element'', PInt 12)]] True
     = Inr (PInt 418, PInt 1, Some (PInt 1))"
  using resolve_refines_spec [of "[''SCADA'' \<mapsto> (PInt 418, PInt 1, PInt 1)]"
      "[[(''symbolic'', PStr ''SCADA''), (''length'', PInt 5)], [(''element'', PInt 12)]]" True]
  by (simp add: spec_resolve_def spec_step_def spec_fill_def clashes_def filled_def other_keys_def
        desired_def extend_tag_def str_def)

text \<open>
  The claim lists three causes of failure.  The path \<open>[{'element': 3}, {'class': 1},
  {'instance': 1}]\<close> sets class and instance once each, has no symbolic segment and overwrites
  nothing, yet \<open>resolve\<close> fails on it: the \<open>element\<close> segment is met before the fields are
  filled and is refused as an invalid term.
\<close>

theorem resolve_invalid_term_counterexample:
  "resolve Map.empty [[(''element'', PInt 3)], [(''class'', PInt 1)], [(''instance'', PInt 1)]] False
     = Inl (AssertionError ''Invalid term'')"
  by (simp add: resolve_def desired_def while_working.simps pull_def pull_key_def pop_def)

subsection \<open>The registry\<close>

lemma directory_track_max [simp]: "directory (track_max cls i w) = directory w"
  by (simp add: track_max_def)

lemma symbol_track_max [simp]: "symbol (track_max cls i w) = symbol w"
  by (simp add: track_max_def)

lemma lookup_track_max [simp]: "lookup (track_max cls i w) c j a = lookup w c j a"
  by (simp add: lookup_def)


lemma max_instance_set_slot [simp]: "max_instance (set_slot w ci k x) = max_instance w"
  by (simp add: set_slot_def)

lemma symbol_set_slot [simp]: "symbol (set_slot w ci k x) = symbol w"
  by (simp add: set_slot_def)

lemma lookup_set_slot:
  "lookup (set_slot w ci k x) c i None =
     (if ci = (c, i) \<and> k = 0 then Some x else lookup w c i None)"
  by (auto simp: lookup_def set_slot_def assign_def map_of_pop split: option.splits)

lemma max_instance_class_level [simp]:
  "max_instance (class_level_attributes cls n w) = max_instance w"
  by (simp add: class_level_attributes_def Let_def)

lemma symbol_class_level [simp]:
  "symbol (class_level_attributes cls n w) = symbol w"
  by (simp add: class_level_attributes_def Let_def)

lemma lookup_class_level [simp]:
  "lookup (class_level_attributes cls n w) c i None = lookup w c i None"
  by (simp add: class_level_attributes_def Let_def lookup_set_slot)

lemma self_name_of_given [simp]: "self_name_of cls (Some (x # n)) = x # n"
  by (simp add: self_name_of_def)

text \<open>Constructing instance 0 of a class that has none never recurses.\<close>

lemma Object_init_zero:
  assumes "lookup w (class_id cls) 0 None = None"
  shows "Object_init cls nm (Some 0) w =
     (Inr 0, class_level_attributes cls (self_name_of cls nm)
               (set_slot (track_max cls 0 w) (class_id cls, 0) 0 (Self (self_name_of cls nm))))"
  using assms
  by (subst Object_init.simps) (simp add: Let_def allocate_def lookup_set_slot)

lemma Object_init_present:
  assumes "lookup w (class_id cls) (allocate cls instance_id w) None \<noteq> None"
  shows "Object_init cls nm instance_id w =
     (Inl (AssertionError ''CIP Object already exists''), track_max cls (allocate cls instance_id w) w)"
  using assms by (subst Object_init.simps) (simp add: Let_def)

lemma Object_init_absent:
  assumes "lookup w (class_id cls) (allocate cls instance_id w) None = None"
  shows "Object_init cls nm instance_id w =
     (Inr (allocate cls instance_id w),
      if allocate cls instance_id w = 0
      then class_level_attributes cls (self_name_of cls nm) (registered cls nm instance_id w)
      else if lookup w (class_id cls) 0 None = None
      then snd (Object_init cls (Some (''meta-'' @ self_name_of cls nm)) (Some 0)
                  (registered cls nm instance_id w))
      else registered cls nm instance_id w)"
proof (cases "allocate cls instance_id w = 0")
  case True
  then show ?thesis
    using assms
    by (subst Object_init.simps) (simp add: Let_def registered_def lookup_set_slot)
next
  case False
  show ?thesis
  proof (cases "lookup w (class_id cls) 0 None = None")
    case True
    then have "lookup (registered cls nm instance_id w) (class_id cls) 0 None = None"
      using False by (simp add: registered_def lookup_set_slot)
    from Object_init_zero[OF this] assms False True show ?thesis
      by (subst Object_init.simps) (simp add: Let_def registered_def lookup_set_slot)
  next
    case nz: False
    then show ?thesis
      using assms False
      by (subst Object_init.simps) (auto simp add: Let_def registered_def lookup_set_slot)
  qed
qed

lemma lookup_after_init:
  assumes "lookup w (class_id cls) (allocate cls instance_id w) None = None"
  shows "lookup (snd (Object_init cls nm instance_id w)) c i None =
     (if c = class_id cls \<and> i = allocate cls instance_id w then Some (Self (self_name_of cls nm))
      else if c = class_id cls \<and> i = 0 \<and> lookup w c 0 None = None
      then Some (Self (''meta-'' @ self_name_of cls nm))
      else lookup w c i None)"
proof (cases "allocate cls instance_id w = 0")
  case True
  then show ?thesis
    using assms by (simp add: Object_init_absent registered_def lookup_set_slot)
next
  case False
  show ?thesis
  proof (cases "lookup w (class_id cls) 0 None = None")
    case True
    then have z: "lookup (registered cls nm instance_id w) (class_id cls) 0 None = None"
      using False by (simp add: registered_def lookup_set_slot)
    show ?thesis
      using assms False True
      by (simp add: Object_init_absent Object_init_zero[OF z] lookup_set_slot)
         (auto simp: registered_def lookup_set_slot)
  next
    case nz: False
    then show ?thesis
      using assms False
      by (auto simp add: Object_init_absent registered_def lookup_set_slot)
  qed
qed


text \<open>
  Claim C10.  The directory holds at most one Object per (class_id, instance_id): when the
  pair of the Object under construction is already present, the constructor fails with the
  assertion and leaves the directory (and the symbol table) as it was; when the pair is
  absent the constructor succeeds and the pair then names the new Object.
\<close>

theorem Object_init_unique:
  "(lookup w (class_id cls) (allocate cls instance_id w) None \<noteq> None \<longrightarrow>
      fst (Object_init cls nm instance_id w) = Inl (AssertionError ''CIP Object already exists'')
      \<and> directory (snd (Object_init cls nm instance_id w)) = directory w
      \<and> symbol (snd (Object_init cls nm instance_id w)) = symbol w)
   \<and> (lookup w (class_id cls) (allocate cls instance_id w) None = None \<longrightarrow>
      fst (Object_init cls nm instance_id w) = Inr (allocate cls instance_id w)
      \<and> lookup (snd (Object_init cls nm instance_id w)) (class_id cls) (allocate cls instance_id w) None
          = Some (Self (self_name_of cls nm)))"
proof (intro conjI impI)
  assume p: "lookup w (class_id cls) (allocate cls instance_id w) None \<noteq> None"
  show "fst (Object_init cls nm instance_id w) = Inl (AssertionError ''CIP Object already exists'')"
    by (simp add: Object_init_present[OF p])
  show "directory (snd (Object_init cls nm instance_id w)) = directory w"
    by (simp add: Object_init_present[OF p])
  show "symbol (snd (Object_init cls nm instance_id w)) = symbol w"
    by (simp add: Object_init_present[OF p])
next
  assume a: "lookup w (class_id cls) (allocate cls instance_id w) None = None"
  show "fst (Object_init cls nm instance_id w) = Inr (allocate cls instance_id w)"
    by (simp add: Object_init_absent[OF a])
  show "lookup (snd (Object_init cls nm instance_id w)) (class_id cls) (allocate cls instance_id w) None
          = Some (Self (self_name_of cls nm))"
    by (simp add: lookup_after_init[OF a])
qed
text \<open>A Message Router constructed twice under the same pair: the second construction fails.\<close>

theorem Object_init_unique_witness:
  "lookup (snd (Object_init Message_Router_class None None (loaded no_config))) 0x02 1 None
      = Some (Self ''Message_Router'')
   \<and> fst (Object_init Message_Router_class (Some ''again'') (Some 1)
            (snd (Object_init Message_Router_class None None (loaded no_config))))
      = Inl (AssertionError ''CIP Object already exists'')
   \<and> directory (snd (Object_init Message_Router_class (Some ''again'') (Some 1)
            (snd (Object_init Message_Router_class None None (loaded no_config)))))
      = directory (snd (Object_init Message_Router_class None None (loaded no_config)))"
proof -
  have a: "lookup (loaded no_config) (class_id Message_Router_class)
             (allocate Message_Router_class None (loaded no_config)) None = None"
    by (simp add: lookup_def loaded_def)
  have l: "lookup (snd (Object_init Message_Router_class None None (loaded no_config))) 0x02 1 None
      = Some (Self ''Message_Router'')"
    by (simp add: lookup_after_init[OF a])
       (simp add: Message_Router_class_def allocate_def loaded_def self_name_of_def)
  then have p: "lookup (snd (Object_init Message_Router_class None None (loaded no_config)))
      (class_id Message_Router_class)
      (allocate Message_Router_class (Some 1)
         (snd (Object_init Message_Router_class None None (loaded no_config)))) None \<noteq> None"
    by (simp add: Message_Router_class_def allocate_def)
  show ?thesis
    using l p Object_init_unique [of "snd (Object_init Message_Router_class None None (loaded no_config))"
        Message_Router_class "Some 1" "Some ''again''"]
    by simp
qed

subsection \<open>Allocation of instance ids\<close>


lemma lookup_symbol_update [simp]: "lookup (w\<lparr>symbol := s\<rparr>) c i a = lookup w c i a"
  by (simp add: lookup_def)

lemma lookup_reset_empty [simp]: "lookup (lookup_reset w) c i a = None"
  by (simp add: lookup_def lookup_reset_def)

lemma max_instance_reset [simp]: "max_instance (lookup_reset w) = max_instance w"
  by (simp add: lookup_reset_def)




lemma length_states [simp]: "length (states xs w) = Suc (length xs)"
  by (induction xs arbitrary: w) auto





subsection \<open>Session handles\<close>

lemma draw_session_nonzero:
  "draw_session table draws = Some (session, rest) \<Longrightarrow> session \<noteq> 0 \<and> session \<in> set draws"
  by (induction draws) (auto split: if_splits)

text \<open>
  Claim C3, at two inputs.  The draw \<open>2**32\<close>, which \<open>random.randint( 0, 2**32 )\<close> can return,
  is issued as a handle although it is not below \<open>2**32\<close>; and a peer that registers while
  another peer holds the handle 5 is given the handle 5 when that number is drawn, since the
  loop looks for the number among the addresses of the table, not among its handles.  The
  handle is never 0.
\<close>

theorem register_session_handles:
  "register_session [] (Socket_address ''10.0.0.2'' 2000) [0, 2 ^ 32]
     = Some (2 ^ 32, [(Socket_address ''10.0.0.2'' 2000, 2 ^ 32)], [])
   \<and> register_session [(Socket_address ''10.0.0.1'' 1000, 5)] (Socket_address ''10.0.0.2'' 2000) [5]
     = Some (5, [(Socket_address ''10.0.0.2'' 2000, 5), (Socket_address ''10.0.0.1'' 1000, 5)], [])"
  by (simp add: register_session_def in_sessions_def assign_def pop_def)
subsection \<open>Encoded parts\<close>

lemma cat_Cons_Inr:
  "cat (x # xs) = Inr bs \<longleftrightarrow> (\<exists>a b. x = Inr a \<and> cat xs = Inr b \<and> bs = a @ b)"
  by (cases x) (auto split: sum.splits)

lemma cat_Nil_Inr: "cat [] = Inr bs \<longleftrightarrow> bs = []"
  by auto

lemma produce_int_type:
  "produce (int_type n s) v = Inr bs \<longleftrightarrow> fits n s v \<and> bs = le_bytes n v"
  by (auto simp: int_type_def)

lemma need_Inr: "need x f = Inr y \<longleftrightarrow> (\<exists>v. x = Some v \<and> f v = Inr y)"
  by (cases x) (auto simp: need_def)

subsection \<open>Forward Open\<close>

text \<open>
  Claim C4, as the code has it.  For every Forward Open request that the Connection Manager
  processes (the context \<open>forward_open\<close> as parsed, the service absent or 0x54) the reply has
  service 0xD4 and status 0, keeps the O->T connection id, the connection serial, the
  originator vendor and the originator serial of the request, has O->T API equal to O->T RPI
  and T->O API equal to T->O RPI, and has as T->O connection id the number drawn by
  \<open>random.randint( 0, 2**32-1 )\<close>, which fits 32 bits and may be 0.  When the reply is encoded,
  \<open>data.input\<close> carries these values in this order, little-endian.
\<close>

theorem forward_open_reply:
  assumes "forward_open d = Some fo"
    and "service d = None \<or> service d = Some FWD_OPEN_REQ"
    and "0 \<le> drawn \<and> drawn \<le> 2 ^ 32 - 1"
    and "Connection_Manager_request enc unconnected drawn d w = ((exc, d'), w')"
  shows "service d' = Some FWD_OPEN_RPY \<and> status d' = Some 0
     \<and> forward_open d' =
          Some (fo\<lparr>T_O_connection_ID := drawn, O_T_API := Some (O_T_RPI fo), T_O_API := Some (T_O_RPI fo)\<rparr>)
     \<and> fits 4 False drawn
     \<and> w' = w
     \<and> (exc = None \<longrightarrow>
          (\<exists>sts tail. status_produce enc (Some 0) (status_ext d) = Inr sts
             \<and> application_tail enc (application fo) = Inr tail
             \<and> input d' =
                 Some ([0xD4, 0] @ sts
                       @ le_bytes 4 (O_T_connection_ID fo) @ le_bytes 4 drawn
                       @ le_bytes 2 (connection_serial fo) @ le_bytes 2 (O_vendor fo)
                       @ le_bytes 4 (O_serial fo)
                       @ le_bytes 4 (O_T_RPI fo) @ le_bytes 4 (T_O_RPI fo) @ tail)))"
proof -
  let ?fo = "fo\<lparr>T_O_connection_ID := drawn, O_T_API := Some (O_T_RPI fo), T_O_API := Some (T_O_RPI fo)\<rparr>"
  let ?d2 = "d\<lparr>service := Some FWD_OPEN_RPY, forward_open := Some ?fo, status := Some 0\<rparr>"
  have ctx: "context_for FWD_OPEN_REQ (forward_open d) (service d)"
    using assms(1,2) by (auto simp: context_for_def)
  have tried: "Connection_Manager_forward_open drawn (d\<lparr>service := Some FWD_OPEN_RPY, status := Some 8\<rparr>)
      = Inr ?d2"
    using assms(1) by (simp add: Connection_Manager_forward_open_def)
  have req: "Connection_Manager_request enc unconnected drawn d w =
      (case Connection_Manager_produce enc ?d2 of
         Inl e \<Rightarrow> ((Some e, ?d2), w)
       | Inr bs \<Rightarrow> ((None, ?d2\<lparr>input := Some bs\<rparr>), w))"
    using ctx by (simp add: Connection_Manager_request_def tried Let_def cong: sum.case_cong)
  have prod: "Connection_Manager_produce enc ?d2 =
      cat [produce USINT FWD_OPEN_RPY, Inr [0], status_produce enc (Some 0) (status_ext d),
           cat [produce UDINT (O_T_connection_ID fo), produce UDINT drawn,
                produce UINT (connection_serial fo), produce UINT (O_vendor fo),
                produce UDINT (O_serial fo), produce UDINT (O_T_RPI fo), produce UDINT (T_O_RPI fo),
                application_tail enc (application fo)]]"
    by (simp add: Connection_Manager_produce_def context_for_def FWD_OPEN_RPY_def FWD_OPEN_REQ_def need_def)
  have f: "fits 4 False drawn"
    using assms(3) by (simp add: fits_def)
  show ?thesis
  proof (cases "Connection_Manager_produce enc ?d2")
    case (Inl e)
    with req assms(4) have "exc = Some e" "d' = ?d2" "w' = w" by auto
    then show ?thesis using f by simp
  next
    case (Inr bs)
    with req assms(4) have r: "exc = None" "d' = ?d2\<lparr>input := Some bs\<rparr>" "w' = w" by auto
    from Inr prod have "cat [produce USINT FWD_OPEN_RPY, Inr [0], status_produce enc (Some 0) (status_ext d),
           cat [produce UDINT (O_T_connection_ID fo), produce UDINT drawn,
                produce UINT (connection_serial fo), produce UINT (O_vendor fo),
                produce UDINT (O_serial fo), produce UDINT (O_T_RPI fo), produce UDINT (T_O_RPI fo),
                application_tail enc (application fo)]] = Inr bs"
      by simp
    then obtain sts tail where
      "status_produce enc (Some 0) (status_ext d) = Inr sts"
      "application_tail enc (application fo) = Inr tail"
      "bs = [0xD4, 0] @ sts
           @ le_bytes 4 (O_T_connection_ID fo) @ le_bytes 4 drawn
           @ le_bytes 2 (connection_serial fo) @ le_bytes 2 (O_vendor fo)
           @ le_bytes 4 (O_serial fo)
           @ le_bytes 4 (O_T_RPI fo) @ le_bytes 4 (T_O_RPI fo) @ tail"
      by (auto simp: cat_Cons_Inr cat_Nil_Inr produce_int_type USINT_def UINT_def UDINT_def
                     FWD_OPEN_RPY_def fits_def simp del: cat.simps)
    then show ?thesis using r f by auto
  qed
qed

text \<open>The Forward Open of the example, with the draw 0x0BADCAFE.\<close>

theorem forward_open_reply_witness:
  "fst (Connection_Manager_request reply_codec not_unconnected 0x0BADCAFE forward_open_request
          (loaded no_config))
     = (None,
        forward_open_request
          \<lparr>service := Some 0xD4, status := Some 0,
           forward_open := Some (forward_open_example
              \<lparr>T_O_connection_ID := 0x0BADCAFE, O_T_API := Some 2000, T_O_API := Some 3000\<rparr>),
           input := Some [0xD4, 0, 0, 0, 0x78, 0x56, 0x34, 0x12, 0xFE, 0xCA, 0xAD, 0x0B,
                          7, 0, 1, 0, 99, 0, 0, 0, 0xD0, 0x07, 0, 0, 0xB8, 0x0B, 0, 0, 0, 0]\<rparr>)"
proof -
  obtain exc d' w' where r: "Connection_Manager_request reply_codec not_unconnected 0x0BADCAFE
      forward_open_request (loaded no_config) = ((exc, d'), w')"
    by (metis surj_pair)
  have e: "Connection_Manager_request reply_codec not_unconnected 0x0BADCAFE forward_open_request
          (loaded no_config) =
     ((None,
        forward_open_request
          \<lparr>service := Some 0xD4, status := Some 0,
           forward_open := Some (forward_open_example
              \<lparr>T_O_connection_ID := 0x0BADCAFE, O_T_API := Some 2000, T_O_API := Some 3000\<rparr>),
           input := Some [0xD4, 0, 0, 0, 0x78, 0x56, 0x34, 0x12, 0xFE, 0xCA, 0xAD, 0x0B,
                          7, 0, 1, 0, 99, 0, 0, 0, 0xD0, 0x07, 0, 0, 0xB8, 0x0B, 0, 0, 0, 0]\<rparr>),
      loaded no_config)"
    by (simp add: Connection_Manager_request_def Connection_Manager_forward_open_def
          Connection_Manager_produce_def forward_open_request_def forward_open_example_def
          empty_artifact_def context_for_def FWD_OPEN_REQ_def FWD_OPEN_RPY_def need_def Let_def
          reply_codec_def application_tail_def USINT_def UINT_def UDINT_def int_type_def fits_def
          le_bytes_1 le_bytes_2 le_bytes_4)
  have "forward_open forward_open_request = Some forward_open_example"
    and "service forward_open_request = None \<or> service forward_open_request = Some FWD_OPEN_REQ"
    and "(0::int) \<le> 0x0BADCAFE \<and> (0x0BADCAFE::int) \<le> 2 ^ 32 - 1"
    by (simp_all add: forward_open_request_def empty_artifact_def FWD_OPEN_REQ_def)
  from forward_open_reply[OF this r] e r show ?thesis
    by simp
qed

text \<open>
  The claim has the T->O connection id nonzero.  \<open>random.randint( 0, 2**32-1 )\<close> can return 0,
  and the reply then carries the T->O connection id 0.
\<close>

theorem forward_open_zero_id_counterexample:
  "map_option T_O_connection_ID
     (forward_open (snd (fst (Connection_Manager_request reply_codec not_unconnected 0
                                 forward_open_request (loaded no_config)))))
     = Some 0"
  by (simp add: Connection_Manager_request_def Connection_Manager_forward_open_def
        forward_open_request_def forward_open_example_def empty_artifact_def context_for_def
        FWD_OPEN_REQ_def Let_def split: sum.splits)

subsection \<open>The offset table of a Multiple Service Packet\<close>

lemma offsets_loop_snoc:
  "offsets_loop (xs @ [p]) offs acc =
     (0 # map (\<lambda>off. off + int (length p)) (fst (offsets_loop xs offs acc)),
      p @ snd (offsets_loop xs offs acc))"
  by (induction xs arbitrary: offs acc) auto

lemma offsets_loop_Cons:
  "offsets_loop (rev (p # ps)) [] [] =
     (0 # map (\<lambda>off. off + int (length p)) (fst (offsets_loop (rev ps) [] [])),
      p @ snd (offsets_loop (rev ps) [] []))"
  by (simp add: offsets_loop_snoc)

lemma offsets_loop_data: "snd (offsets_loop (rev parts) [] []) = concat parts"
  by (induction parts) (simp_all add: offsets_loop_snoc)

lemma offsets_loop_length: "length (fst (offsets_loop (rev parts) [] [])) = length parts"
  by (induction parts) (simp_all add: offsets_loop_snoc)

lemma offsets_loop_first:
  "parts \<noteq> [] \<Longrightarrow> fst (offsets_loop (rev parts) [] []) ! 0 = 0"
  by (cases parts) (simp_all add: offsets_loop_snoc)

lemma offsets_loop_next:
  "0 < i \<Longrightarrow> i < length parts \<Longrightarrow>
   fst (offsets_loop (rev parts) [] []) ! i =
     fst (offsets_loop (rev parts) [] []) ! (i - 1) + int (length (parts ! (i - 1)))"
proof (induction parts arbitrary: i)
  case Nil
  then show ?case by simp
next
  case (Cons p ps)
  from Cons.prems obtain j where i: "i = Suc j" and j: "j < length ps"
    by (cases i) auto
  show ?case
  proof (cases j)
    case 0
    with j have "ps \<noteq> []" by auto
    then show ?thesis
      using i 0 j by (simp add: offsets_loop_snoc offsets_loop_length offsets_loop_first)
  next
    case (Suc k)
    with j have "0 < j" "j < length ps" by auto
    from Cons.IH[OF this] show ?thesis
      using i Suc j by (simp add: offsets_loop_snoc offsets_loop_length)
  qed
qed

lemma length_emitted_offsets: "length (emitted_offsets parts) = length parts"
  by (simp add: emitted_offsets_def offsets_loop_length)

lemma emitted_offsets_first:
  "parts \<noteq> [] \<Longrightarrow> emitted_offsets parts ! 0 = 2 + 2 * int (length parts)"
  by (simp add: emitted_offsets_def offsets_loop_length offsets_loop_first)

lemma emitted_offsets_next:
  "0 < i \<Longrightarrow> i < length parts \<Longrightarrow>
   emitted_offsets parts ! i = emitted_offsets parts ! (i - 1) + int (length (parts ! (i - 1)))"
  by (simp add: emitted_offsets_def offsets_loop_length offsets_loop_next)

lemma produce_UINT: "produce UINT v = Inr bs \<longleftrightarrow> fits 2 False v \<and> bs = le_bytes 2 v"
  by (simp add: UINT_def produce_int_type)

lemma cat_table:
  "cat (map (produce UINT) vs @ rest) = Inr bs \<longleftrightarrow>
     list_all (fits 2 False) vs \<and> (\<exists>b. cat rest = Inr b \<and> bs = concat (map (le_bytes 2) vs) @ b)"
proof (induction vs arbitrary: bs)
  case Nil
  show ?case by simp
next
  case (Cons v vs)
  show ?case
    by (auto simp add: cat_Cons_Inr Cons.IH produce_UINT simp del: cat.simps le_bytes.simps)
qed

lemma encode_multiple_Inr:
  "encode_multiple parts = Inr bs \<longleftrightarrow>
     fits 2 False (int (length parts)) \<and> list_all (fits 2 False) (emitted_offsets parts)
     \<and> bs = le_bytes 2 (int (length parts)) @ concat (map (le_bytes 2) (emitted_offsets parts)) @ concat parts"
proof -
  obtain offs acc where l: "offsets_loop (rev parts) [] [] = (offs, acc)"
    by (cases "offsets_loop (rev parts) [] []")
  have acc: "acc = concat parts" using offsets_loop_data[of parts] l by simp
  have len: "length offs = length parts" using offsets_loop_length[of parts] l by simp
  have em: "emitted_offsets parts = map (\<lambda>off. 2 + 2 * int (length parts) + off) offs"
    using l len by (simp add: emitted_offsets_def)
  have m: "map (\<lambda>off. produce UINT (2 + 2 * int (length parts) + off)) offs
      = map (produce UINT) (emitted_offsets parts)"
    by (simp add: em)
  show ?thesis
    unfolding encode_multiple_def l
    by (auto simp add: len m cat_Cons_Inr cat_table produce_UINT acc cat_Nil_Inr
             simp del: cat.simps le_bytes.simps)
qed

lemma collect_Cons_Inr:
  "collect (x # xs) = Inr ys \<longleftrightarrow> (\<exists>a zs. x = Inr a \<and> collect xs = Inr zs \<and> ys = a # zs)"
  by (cases x) (auto split: sum.splits)

lemma collect_inputs:
  "collect (map (\<lambda>r. need (input r) Inr) xs) = Inr ys \<longleftrightarrow> map input xs = map Some ys"
proof (induction xs arbitrary: ys)
  case Nil
  show ?case by auto
next
  case (Cons x xs)
  have "collect (map (\<lambda>r. need (input r) Inr) (x # xs)) = Inr ys \<longleftrightarrow>
      (\<exists>a zs. input x = Some a \<and> collect (map (\<lambda>r. need (input r) Inr) xs) = Inr zs \<and> ys = a # zs)"
    by (simp add: collect_Cons_Inr need_Inr del: collect.simps)
  also have "\<dots> \<longleftrightarrow> (\<exists>a zs. input x = Some a \<and> map input xs = map Some zs \<and> ys = a # zs)"
    by (simp add: Cons.IH)
  also have "\<dots> \<longleftrightarrow> map input (x # xs) = map Some ys"
    by (cases ys) auto
  finally show ?case .
qed

lemma length_le_bytes [simp]: "length (le_bytes n v) = n"
  by (induction n arbitrary: v) auto

lemma length_concat_le_bytes: "length (concat (map (le_bytes 2) vs)) = 2 * length vs"
  by (induction vs) auto

lemma multiple_reply_bytes:
  assumes "service d = Some MULTIPLE_RPY" and "status d = Some 0"
    and "multiple d = Some m" and "request m = Some rs"
    and "Message_Router_produce enc d = Inr reply"
  shows "\<exists>sts parts.
           status_produce enc (Some 0) (status_ext d) = Inr sts
         \<and> map input rs = map Some parts
         \<and> list_all (fits 2 False) (emitted_offsets parts)
         \<and> reply = [0x8A, 0] @ sts @ le_bytes 2 (int (length rs))
                     @ concat (map (le_bytes 2) (emitted_offsets parts)) @ concat parts"
proof -
  have nreq: "\<not> context_for MULTIPLE_REQ (multiple d) (service d)"
    using assms(1) by (simp add: context_for_def MULTIPLE_REQ_def MULTIPLE_RPY_def)
  have prod: "Message_Router_produce enc d =
      cat [produce USINT MULTIPLE_RPY, Inr [0], status_produce enc (Some 0) (status_ext d),
           case collect (map (\<lambda>r. need (input r) Inr) (rev rs)) of
             Inl e \<Rightarrow> Inl e
           | Inr rpys \<Rightarrow> encode_multiple (rev rpys)]"
    using nreq assms(1-4) by (simp add: Message_Router_produce_def need_def)
  from assms(5) have "cat [produce USINT MULTIPLE_RPY, Inr [0], status_produce enc (Some 0) (status_ext d),
           case collect (map (\<lambda>r. need (input r) Inr) (rev rs)) of
             Inl e \<Rightarrow> Inl e
           | Inr rpys \<Rightarrow> encode_multiple (rev rpys)] = Inr reply"
    by (simp add: prod)
  then obtain sts body rpys where
    sts: "status_produce enc (Some 0) (status_ext d) = Inr sts" and
    col: "collect (map (\<lambda>r. need (input r) Inr) (rev rs)) = Inr rpys" and
    enc: "encode_multiple (rev rpys) = Inr body" and
    reply: "reply = [0x8A, 0] @ sts @ body"
    by (auto simp: cat_Cons_Inr cat_Nil_Inr USINT_def produce_int_type MULTIPLE_RPY_def fits_def
             simp del: cat.simps split: sum.splits)
  from col have "map input (rev rs) = map Some rpys" by (simp add: collect_inputs)
  then have "rev (map input (rev rs)) = rev (map Some rpys)" by simp
  then have inputs: "map input rs = map Some (rev rpys)"
    by (simp add: rev_map)
  then have len: "length (rev rpys) = length rs"
    by (metis length_map)
  from enc have fit: "list_all (fits 2 False) (emitted_offsets (rev rpys))"
    and body: "body = le_bytes 2 (int (length (rev rpys)))
                 @ concat (map (le_bytes 2) (emitted_offsets (rev rpys))) @ concat (rev rpys)"
    by (simp_all add: encode_multiple_Inr)
  show ?thesis
    using sts inputs fit reply body len by (intro exI[of _ sts] exI[of _ "rev rpys"]) simp
qed

text \<open>
  Claim C1, as the code has it.  Let \<open>Message_Router.produce\<close> build the reply of a Multiple
  Service Packet with status 0 whose N sub-requests carry the replies \<open>r.input\<close> of lengths
  \<open>L_0 \<dots> L_{N-1}\<close>.  The reply is the service byte 0x8A, the reserved byte, the encoded status,
  the count N, the N offsets and the sub-replies in order.  The offsets emitted are UINT
  values with \<open>offset[0] = 2 + 2*N\<close> and \<open>offset[i] = offset[i-1] + L_{i-1}\<close> for \<open>1 <= i < N\<close>,
  and the part of the reply that follows the service, reserved and status bytes has length
  \<open>2 + 2*N + sum of the L_i\<close>.
\<close>

theorem multiple_reply_offsets:
  assumes "service d = Some MULTIPLE_RPY" and "status d = Some 0"
    and "multiple d = Some m" and "request m = Some rs"
    and "Message_Router_produce enc d = Inr reply"
  shows "\<exists>sts parts.
           status_produce enc (Some 0) (status_ext d) = Inr sts
         \<and> map input rs = map Some parts
         \<and> reply = [0x8A, 0] @ sts @ le_bytes 2 (int (length rs))
                     @ concat (map (le_bytes 2) (emitted_offsets parts)) @ concat parts
         \<and> length (emitted_offsets parts) = length rs
         \<and> list_all (fits 2 False) (emitted_offsets parts)
         \<and> (if rs = [] then True else emitted_offsets parts ! 0 = 2 + 2 * int (length rs))
         \<and> (\<forall>i. 0 < i \<and> i < length rs \<longrightarrow>
               emitted_offsets parts ! i = emitted_offsets parts ! (i - 1) + int (length (parts ! (i - 1))))
         \<and> length (drop (2 + length sts) reply) = 2 + 2 * length rs + sum_list (map length parts)"
proof -
  from multiple_reply_bytes[OF assms] obtain sts parts where
    sts: "status_produce enc (Some 0) (status_ext d) = Inr sts" and
    inputs: "map input rs = map Some parts" and
    fit: "list_all (fits 2 False) (emitted_offsets parts)" and
    reply: "reply = [0x8A, 0] @ sts @ le_bytes 2 (int (length rs))
                     @ concat (map (le_bytes 2) (emitted_offsets parts)) @ concat parts"
    by blast
  from inputs have len: "length parts = length rs"
    by (metis length_map)
  have "length (concat (map (le_bytes 2) (emitted_offsets parts))) = 2 * length rs"
    by (simp only: length_concat_le_bytes length_emitted_offsets len)
  moreover have "length (concat parts) = sum_list (map length parts)"
    by (rule length_concat)
  ultimately have lbody: "length (le_bytes 2 (int (length rs))
        @ concat (map (le_bytes 2) (emitted_offsets parts)) @ concat parts)
      = 2 + 2 * length rs + sum_list (map length parts)"
    by (simp only: length_append length_le_bytes)
  show ?thesis
  proof (intro exI conjI)
    show "status_produce enc (Some 0) (status_ext d) = Inr sts" by (rule sts)
    show "map input rs = map Some parts" by (rule inputs)
    show "reply = [0x8A, 0] @ sts @ le_bytes 2 (int (length rs))
                     @ concat (map (le_bytes 2) (emitted_offsets parts)) @ concat parts"
      by (rule reply)
    show "length (emitted_offsets parts) = length rs"
      by (simp add: length_emitted_offsets len)
    show "list_all (fits 2 False) (emitted_offsets parts)" by (rule fit)
    show "if rs = [] then True else emitted_offsets parts ! 0 = 2 + 2 * int (length rs)"
    proof (cases "rs = []")
      case True
      then show ?thesis by simp
    next
      case False
      with len have "parts \<noteq> []" by auto
      from emitted_offsets_first[OF this] False len show ?thesis by simp
    qed
    show "\<forall>i. 0 < i \<and> i < length rs \<longrightarrow>
               emitted_offsets parts ! i = emitted_offsets parts ! (i - 1) + int (length (parts ! (i - 1)))"
      using emitted_offsets_next[of _ parts] len by auto
    show "length (drop (2 + length sts) reply) = 2 + 2 * length rs + sum_list (map length parts)"
      unfolding reply using lbody by simp
  qed
qed

text \<open>
  The reply of the example: two sub-replies of 3 and 2 bytes, offsets 6 and 9, and 11 bytes
  after the status.
\<close>

theorem multiple_reply_offsets_witness:
  "Message_Router_produce reply_codec multiple_reply_example
     = Inr [0x8A, 0, 0, 0, 2, 0, 6, 0, 9, 0, 1, 2, 3, 4, 5]
   \<and> emitted_offsets [[1, 2, 3], [4, 5]] = [6, 9]"
proof -
  have e: "Message_Router_produce reply_codec multiple_reply_example
     = Inr [0x8A, 0, 0, 0, 2, 0, 6, 0, 9, 0, 1, 2, 3, 4, 5]"
    by (simp add: Message_Router_produce_def multiple_reply_example_def empty_packet_def
          empty_artifact_def artifact.extend_def packet.fields_def context_for_def need_def
          MULTIPLE_REQ_def MULTIPLE_RPY_def reply_codec_def encode_multiple_def
          USINT_def UINT_def int_type_def fits_def le_bytes_1 le_bytes_2)
  have o: "emitted_offsets [[1, 2, 3], [4, 5]] = [6, 9]"
    by (simp add: emitted_offsets_def)
  have "service multiple_reply_example = Some MULTIPLE_RPY"
    and "status multiple_reply_example = Some 0"
    and "multiple multiple_reply_example
           = Some \<lparr>request = Some [empty_artifact\<lparr>input := Some [1, 2, 3]\<rparr>,
                                    empty_artifact\<lparr>input := Some [4, 5]\<rparr>]\<rparr>"
    and "request \<lparr>request = Some [empty_artifact\<lparr>input := Some [1, 2, 3]\<rparr>,
                                   empty_artifact\<lparr>input := Some [4, 5]\<rparr>]\<rparr>
           = Some [empty_artifact\<lparr>input := Some [1, 2, 3]\<rparr>, empty_artifact\<lparr>input := Some [4, 5]\<rparr>]"
    by (simp_all add: multiple_reply_example_def empty_packet_def empty_artifact_def
          artifact.extend_def packet.fields_def MULTIPLE_RPY_def)
  from multiple_reply_offsets[OF this e] e o show ?thesis
    by simp
qed

text \<open>
  The claim gives the part after the service, reserved and status bytes the length
  \<open>4 + 2*N + sum of the L_i\<close>.  In the example N is 2 and the sub-replies have 3 and 2 bytes:
  the status is encoded in 2 bytes, and 11 bytes follow it, not 13; if only the general status
  byte is counted as status, 12 bytes follow.
\<close>

theorem multiple_reply_length_counterexample:
  "Message_Router_produce reply_codec multiple_reply_example
     = Inr ([0x8A, 0] @ [0, 0] @ [2, 0, 6, 0, 9, 0, 1, 2, 3, 4, 5])
   \<and> status_produce reply_codec (Some 0) None = Inr [0, 0]
   \<and> length [2, 0, 6, 0, 9, 0, 1, 2, 3, 4, 5 :: byte] \<noteq> 4 + 2 * 2 + (3 + 2)
   \<and> length ([0] @ [2, 0, 6, 0, 9, 0, 1, 2, 3, 4, 5 :: byte]) \<noteq> 4 + 2 * 2 + (3 + 2)"
  by (simp add: Message_Router_produce_def multiple_reply_example_def empty_packet_def
        empty_artifact_def artifact.extend_def packet.fields_def context_for_def need_def
        MULTIPLE_REQ_def MULTIPLE_RPY_def reply_codec_def encode_multiple_def
        USINT_def UINT_def int_type_def fits_def le_bytes_1 le_bytes_2)

subsection \<open>\<open>Object.request\<close> and a service that it does not recognise\<close>

lemma recognise_other:
  assumes "service d = Some s"
    and "s \<noteq> GA_SNG_REQ" and "s \<noteq> GA_ALL_REQ" and "s \<noteq> SA_SNG_REQ"
  shows "recognise d = None"
  using assms by (simp add: recognise_def)

lemma Object_produce_other:
  assumes "service d = Some s"
    and "s \<noteq> GA_SNG_REQ" and "s \<noteq> GA_ALL_REQ" and "s \<noteq> SA_SNG_REQ"
    and "s AND 0x80 = 0" and "service_code d = None"
  shows "Object_produce enc d = Inl (AssertionError ''unrecognized request/reply format'')"
proof -
  have "s \<noteq> GA_ALL_RPY" "s \<noteq> GA_SNG_RPY" "s \<noteq> SA_SNG_RPY"
    using assms(5) by (auto simp: GA_ALL_RPY_def GA_SNG_RPY_def SA_SNG_RPY_def)
  then show ?thesis
    using assms by (simp add: Object_produce_def context_for_def)
qed

text \<open>
  Claim C2, where the code departs from it.  \<open>Object.request\<close> is called with an artifact whose
  \<open>service\<close> is a request code (high bit clear) other than Get Attributes All, Get Attribute
  Single and Set Attribute Single, and that has no \<open>service_code\<close> context.  The \<open>try\<close> block
  raises before \<open>data.service |= 0x80\<close>, the handler leaves the status 0x08, and
  \<open>Object.produce\<close> then raises out of \<open>request\<close>: the artifact keeps its service code
  without the high bit, its \<open>input\<close> is not written, and no reply is produced.
\<close>

theorem Object_request_unrecognized_service:
  assumes "service d = Some s"
    and "s \<noteq> GA_SNG_REQ" and "s \<noteq> GA_ALL_REQ" and "s \<noteq> SA_SNG_REQ"
    and "s AND 0x80 = 0" and "service_code d = None"
  shows "Object_request (Object_produce enc) self d w =
           ((Some (AssertionError ''unrecognized request/reply format''),
             d\<lparr>status := Some 0x08, status_ext := None\<rparr>), w)"
proof -
  let ?d = "d\<lparr>status := Some 0x08, status_ext := None\<rparr>"
  have svc: "service ?d = Some s" and sc: "service_code ?d = None"
    using assms(1,6) by simp_all
  have "Object_service self ?d w = ((Some (AssertionError ''Unrecognized Service Request''), ?d), w)"
    by (simp add: Object_service_def recognise_other[OF svc assms(2-4)])
  moreover have "Object_produce enc ?d = Inl (AssertionError ''unrecognized request/reply format'')"
    by (rule Object_produce_other[OF svc assms(2-5) sc])
  ultimately show ?thesis
    by (simp add: Object_request_def)
qed

text \<open>
  The service code 0x4C sent to the Object of class 2, instance 1: the call raises, the
  service of the artifact is still 0x4C, its status is 0x08 and it has no \<open>input\<close>.
\<close>

theorem Object_request_unrecognized_service_witness:
  "(case Object_request (Object_produce reply_codec) (2, 1)
           (empty_artifact\<lparr>service := Some 0x4C,
                            path := Some [[(''class'', PInt 2)], [(''instance'', PInt 1)]]\<rparr>)
           (loaded no_config) of
      ((exc, d'), w') \<Rightarrow>
        exc = Some (AssertionError ''unrecognized request/reply format'')
      \<and> service d' = Some 0x4C \<and> status d' = Some 0x08 \<and> input d' = None)"
  using Object_request_unrecognized_service
          [of "empty_artifact\<lparr>service := Some 0x4C,
                               path := Some [[(''class'', PInt 2)], [(''instance'', PInt 1)]]\<rparr>"
              "0x4C" reply_codec "(2, 1)" "loaded no_config"]
  by (simp add: empty_artifact_def GA_SNG_REQ_def GA_ALL_REQ_def SA_SNG_REQ_def)

lemma Object_produce_reply:
  assumes "service d = Some s" and "s = GA_ALL_RPY \<or> s = GA_SNG_RPY \<or> s = SA_SNG_RPY"
    and "Object_produce enc d = Inr bs"
  shows "\<exists>sts rest. status_produce enc (status d) (status_ext d) = Inr sts
           \<and> bs = [word_of_int s, 0] @ sts @ rest
           \<and> (if status d = Some 0 then True else rest = [])"
  using assms
  by (auto simp: Object_produce_def context_for_def GA_ALL_REQ_def GA_SNG_REQ_def SA_SNG_REQ_def
        GA_ALL_RPY_def GA_SNG_RPY_def SA_SNG_RPY_def cat_Cons_Inr cat_Nil_Inr USINT_def
        produce_int_type fits_def
      simp del: cat.simps split: if_splits)

lemma Object_service_recognised:
  assumes "service d = Some s" and "s = GA_ALL_REQ \<or> s = GA_SNG_REQ \<or> s = SA_SNG_REQ"
    and "status d = Some 8" and "status_ext d = None"
    and "Object_service self d w = ((exc, d'), w')"
  shows "service d' = Some (s OR 0x80) \<and> status_ext d' = None \<and> input d' = input d
       \<and> (if exc = None then status d' = Some 0 else status d' = Some 8)"
  using assms
  by (auto simp: Object_service_def recognise_def Let_def get_all_def get_single_def
        GA_ALL_REQ_def GA_SNG_REQ_def SA_SNG_REQ_def GA_ALL_RPY_def GA_SNG_RPY_def SA_SNG_RPY_def
      split: sum.splits prod.splits if_splits)

text \<open>
  A request that \<open>Object.request\<close> recognises (Get Attributes All, Get Attribute Single or
  Set Attribute Single): the service of the artifact becomes the reply code, the request code
  with the high bit; the status is 0, or 8 when the service failed; and when the encoder
  returns, \<open>data.input\<close> is the reply: its service byte, a reserved zero, the encoded status,
  and a payload only when the status is 0.
\<close>

theorem Object_request_recognised_service:
  assumes "service d = Some s" and "s = GA_ALL_REQ \<or> s = GA_SNG_REQ \<or> s = SA_SNG_REQ"
    and "Object_request (Object_produce enc) self d w = ((exc, d'), w')"
  shows "service d' = Some (s OR 0x80)
       \<and> (status d' = Some 0 \<or> status d' = Some 8)
       \<and> (if exc = None
           then \<exists>sts rest. status_produce enc (status d') None = Inr sts
                  \<and> input d' = Some ([word_of_int (s OR 0x80), 0] @ sts @ rest)
                  \<and> (if status d' = Some 0 then True else rest = [])
           else input d' = input d)"
proof -
  let ?d = "d\<lparr>status := Some 0x08, status_ext := None\<rparr>"
  obtain e d1 w1 where sv: "Object_service self ?d w = ((e, d1), w1)"
    by (metis surj_pair)
  have s1: "service ?d = Some s" and s2: "status ?d = Some 8" and s3: "status_ext ?d = None"
    using assms(1) by simp_all
  from Object_service_recognised[OF s1 assms(2) s2 s3 sv]
  have d1: "service d1 = Some (s OR 0x80)" "status_ext d1 = None" "input d1 = input d"
    "if e = None then status d1 = Some 0 else status d1 = Some 8"
    by simp_all
  have rp: "s OR 0x80 = GA_ALL_RPY \<or> s OR 0x80 = GA_SNG_RPY \<or> s OR 0x80 = SA_SNG_RPY"
    using assms(2)
    by (auto simp: GA_ALL_REQ_def GA_SNG_REQ_def SA_SNG_REQ_def GA_ALL_RPY_def GA_SNG_RPY_def
          SA_SNG_RPY_def)
  have st: "status d1 = Some 0 \<or> status d1 = Some 8"
    using d1(4) by (auto split: if_splits)
  have ne: "\<not> (e \<noteq> None \<and> status d1 = Some 0)"
    using d1(4) by (auto split: if_splits)
  show ?thesis
  proof (cases "Object_produce enc d1")
    case (Inl x)
    with assms(3) sv ne have "exc = Some x" "d' = d1"
      by (auto simp: Object_request_def)
    then show ?thesis using d1 st by simp
  next
    case (Inr bs)
    with assms(3) sv ne have res: "exc = None" "d' = d1\<lparr>input := Some bs\<rparr>"
      by (auto simp: Object_request_def)
    from Object_produce_reply[OF d1(1) rp Inr] d1(2) show ?thesis
      unfolding res using d1(1) st by auto
  qed
qed

text \<open>
  Get Attributes All sent to an Object that has no Attributes: the service fails, and the
  reply is the service 0x81 with the status 8.
\<close>

theorem Object_request_recognised_service_witness:
  "(case Object_request (Object_produce reply_codec) (0x02, 1)
           (empty_artifact\<lparr>service := Some 0x01, get_attributes_all := Some Mark\<rparr>)
           (loaded no_config) of
      ((exc, d'), w') \<Rightarrow>
        exc = None \<and> service d' = Some 0x81 \<and> status d' = Some 8
      \<and> input d' = Some [0x81, 0, 8, 0])"
proof -
  obtain exc d' w' where r: "Object_request (Object_produce reply_codec) (0x02, 1)
           (empty_artifact\<lparr>service := Some 0x01, get_attributes_all := Some Mark\<rparr>)
           (loaded no_config) = ((exc, d'), w')"
    by (metis surj_pair)
  have e: "exc = None \<and> status d' = Some 8 \<and> input d' = Some [0x81, 0, 8, 0]"
    using r
    by (auto simp: Object_request_def Object_service_def recognise_def Let_def get_all_def
          collect_all.simps attribute_dict_def key_at_def loaded_def empty_artifact_def
          Object_produce_def context_for_def reply_codec_def
          GA_ALL_REQ_def GA_SNG_REQ_def SA_SNG_REQ_def GA_ALL_RPY_def GA_SNG_RPY_def SA_SNG_RPY_def
          USINT_def int_type_def fits_def le_bytes_1
        split: sum.splits if_splits)
  have "service (empty_artifact\<lparr>service := Some 0x01, get_attributes_all := Some Mark\<rparr>) = Some 0x01"
    and "(0x01::int) = GA_ALL_REQ \<or> (0x01::int) = GA_SNG_REQ \<or> (0x01::int) = SA_SNG_REQ"
    by (simp_all add: GA_ALL_REQ_def)
  from Object_request_recognised_service[OF this r] e r show ?thesis
    by simp
qed

subsection \<open>\<open>Message_Router.request\<close> and the Multiple Service Packet\<close>













end
